theory Spec2Isabelle
  imports Complex_Main "HOL-Library.Multiset" "HOL-Library.Product_Lexorder"
    "HOL-Library.Log_Nat"
begin

section \<open>Data model (flashcard-types.ts)\<close>

text \<open>
  A TypeScript \<^verbatim>\<open>number\<close> is an IEEE 754 double. The model holds the value of a finite
  double: a \<^typ>\<open>real\<close> for the ease factor and for grades, an \<^typ>\<open>int\<close> for the fields
  that hold counts and millisecond timestamps. \<^verbatim>\<open>NaN\<close> and the infinities are not values
  of the model: a deck is read from JSON, which holds neither. An ISO date string is
  modelled by the millisecond timestamp that \<^verbatim>\<open>new Date(s).getTime()\<close> reads from it. The
  optional fields \<^verbatim>\<open>chapter\<close>, \<^verbatim>\<open>section\<close> and \<^verbatim>\<open>visualMedia\<close> of a card and the
  description and timestamps of a deck are read by none of the functions below and are
  left out.
\<close>

datatype difficulty = Easy | Medium | Hard

record Flashcard =
  card_id :: string
  card_front :: string
  card_back :: string
  difficulty :: difficulty
  easeFactor :: real
  interval :: int
  repetitions :: int
  nextReviewDate :: int
  lastReviewDate :: "int option"
  tags :: "string list option"

record FlashcardDeck =
  deck_id :: string
  name :: string
  cards :: "Flashcard list"
  category :: "string option"

text \<open>
  \<open>InvalidArgument\<close> is the error kind of the specification; the source declares no error
  class and contains no \<^verbatim>\<open>throw\<close> statement. \<open>RangeError\<close> and \<open>TypeError\<close> are the
  exceptions that the built-in operations used by the source raise.
\<close>

datatype error = InvalidArgument | RangeError | TypeError

section \<open>Double arithmetic\<close>

text \<open>
  Every arithmetic operation of the source yields the double nearest to the exact result,
  ties going to the even significand. \<open>expo x\<close> is the binary exponent of \<open>x\<close>, at least
  -1022 (below that, doubles are subnormal and equally spaced): the number of bits of
  the integer part of \<open>\<bar>x\<bar> * 2 ^ 1022\<close>, less 1023. A double with that exponent is a
  multiple of \<open>2 powi (expo x - 52)\<close>. \<open>fl\<close> rounds to the nearest such
  multiple. A decimal literal of the source, such as \<^verbatim>\<open>0.1\<close>, is the double \<open>fl 0.1\<close>.

  \<open>fl\<close> does not overflow: a result of magnitude \<open>2 ^ 1024\<close> or more stands for an
  infinity of the same sign. The places where the source can produce one from finite
  doubles are named where they occur.
\<close>

definition minNormalScale :: real where
  "minNormalScale = 2 ^ 1022"

definition expo :: "real \<Rightarrow> int" where
  "expo x = bitlen (max 1 \<lfloor>\<bar>x\<bar> * minNormalScale\<rfloor>) - 1 - 1022"

definition roundHalfEven :: "real \<Rightarrow> int" where
  "roundHalfEven x =
     (let f = \<lfloor>x\<rfloor>; d = x - of_int f
      in if d < 1/2 then f else if 1/2 < d then f + 1 else if even f then f else f + 1)"

definition fl :: "real \<Rightarrow> real" where
  "fl x = (let u = 2 powi (expo x - 52) in of_int (roundHalfEven (x / u)) * u)"

text \<open>
  \<^verbatim>\<open>Math.round\<close>: the nearest integer, a half going upwards. On a double the result is
  exact.
\<close>

definition mathRound :: "real \<Rightarrow> int" where
  "mathRound x = \<lfloor>x + 1/2\<rfloor>"

section \<open>Dates\<close>

text \<open>
  A time value is a number of milliseconds since the epoch, valid up to 8.64e15 in
  magnitude. The local time zone is given by its offset in milliseconds at a UTC time
  (\<open>utcOffset\<close>) and at a local time (\<open>localOffset\<close>); the offsets of a time zone are
  less than a day in magnitude.

  \<^verbatim>\<open>d.setDate(d.getDate() + n)\<close> on the date \<open>d\<close> of time value \<open>now\<close> keeps the local
  time of day and moves the local day by \<open>n\<close>: the new local time is
  \<open>now + utcOffset now + n * msPerDay\<close>, which is converted back to UTC and clipped. All
  numbers that occur are integers below \<open>2 ^ 53\<close> when the result is valid, so double
  arithmetic is exact there; a larger or infinite \<open>n\<close> gives an invalid date.
  \<^verbatim>\<open>toISOString\<close> throws \<open>RangeError\<close> on an invalid date. \<open>nextDate\<close> is the time value of
  the date after \<^verbatim>\<open>setDate\<close>, \<^const>\<open>None\<close> when it is invalid.
\<close>

record TimeZone =
  utcOffset :: "int \<Rightarrow> int"
  localOffset :: "int \<Rightarrow> int"

definition msPerDay :: int where
  "msPerDay = 86400000"

definition maxTime :: int where
  "maxTime = 8640000000000000"

definition nextDate :: "TimeZone \<Rightarrow> int \<Rightarrow> int \<Rightarrow> int option" where
  "nextDate tz now n =
     (let localTime = now + utcOffset tz now + n * msPerDay;
          u = localTime - localOffset tz localTime
      in if \<bar>n\<bar> < 2 ^ 1024 \<and> \<bar>u\<bar> \<le> maxTime then Some u else None)"

definition utcZone :: TimeZone where
  "utcZone = \<lparr> utcOffset = (\<lambda>t. 0), localOffset = (\<lambda>t. 0) \<rparr>"

section \<open>SM-2 review step (flashcard.ts, calculateNextReview)\<close>

text \<open>
  \<open>now\<close> is the clock reading of \<^verbatim>\<open>new Date()\<close>; the source reads the clock a second
  time for \<^verbatim>\<open>lastReviewDate\<close>, and the model takes both readings to be the same
  millisecond. The three numbers taken from the card are updated as in the source,
  operation by operation; a negative zero is not told from zero. Where the product of
  interval and ease factor overflows, the new interval is infinite and the date invalid. In the ease update an
  overflow can only occur in the product with \<open>5 - quality\<close> or in the final sum, and
  only towards minus infinity in the sum; the source then sets 1.3, as the model does
  for any value below 1.3. The returned object is built last: its
  \<^verbatim>\<open>nextDate.toISOString()\<close> throws when the date is invalid, and then no card is
  returned.
\<close>

definition newInterval :: "int \<Rightarrow> int \<Rightarrow> real \<Rightarrow> real \<Rightarrow> int" where
  "newInterval repetitions0 interval0 easeFactor0 quality =
     (if quality < 3 then 1
      else if repetitions0 = 0 then 1
      else if repetitions0 = 1 then 6
      else mathRound (fl (real_of_int interval0 * easeFactor0)))"

definition newRepetitions :: "int \<Rightarrow> real \<Rightarrow> int" where
  "newRepetitions repetitions0 quality =
     (if quality < 3 then 0 else \<lfloor>fl (real_of_int repetitions0 + 1)\<rfloor>)"

definition newEaseFactor :: "real \<Rightarrow> real \<Rightarrow> real" where
  "newEaseFactor easeFactor0 quality =
     (let ef = fl (easeFactor0
                   + fl (fl 0.1 - fl (fl (5 - quality)
                                       * fl (fl 0.08 + fl (fl (5 - quality) * fl 0.02)))))
      in if ef < fl 1.3 then fl 1.3 else ef)"

definition calculateNextReview :: "TimeZone \<Rightarrow> int \<Rightarrow> Flashcard \<Rightarrow> real \<Rightarrow> error + Flashcard" where
  "calculateNextReview tz now crd quality =
     (let interval' = newInterval (repetitions crd) (interval crd) (easeFactor crd) quality;
          repetitions' = newRepetitions (repetitions crd) quality;
          easeFactor' = newEaseFactor (easeFactor crd) quality
      in case nextDate tz now interval' of
           None \<Rightarrow> Inl RangeError
         | Some nextReview \<Rightarrow>
             Inr (crd\<lparr> easeFactor := easeFactor',
                        interval := interval',
                        repetitions := repetitions',
                        lastReviewDate := Some now,
                        nextReviewDate := nextReview,
                        difficulty := (if quality \<ge> 4 then Easy
                                       else if quality \<ge> 3 then Medium else Hard) \<rparr>))"

text \<open>
  A review history: the clock reading and the grade of each review, oldest first. A
  review that throws ends the history without a card.
\<close>

fun reviewAll :: "TimeZone \<Rightarrow> Flashcard \<Rightarrow> (int \<times> real) list \<Rightarrow> error + Flashcard" where
  "reviewAll tz crd [] = Inr crd"
| "reviewAll tz crd ((t, q) # events) =
     (case calculateNextReview tz t crd q of
        Inl e \<Rightarrow> Inl e
      | Inr crd' \<Rightarrow> reviewAll tz crd' events)"

definition sampleCard :: Flashcard where
  "sampleCard = \<lparr> card_id = ''c1'', card_front = ''Q'', card_back = ''A'', difficulty = Medium,
                  easeFactor = 2.5, interval = 6, repetitions = 2, nextReviewDate = 0,
                  lastReviewDate = None, tags = None \<rparr>"

text \<open>
  A card as it is created (ease factor 2.5, interval 1, no repetition), the card that it
  becomes by the grades 5, 5, 3, 5, 3, 3, whose ease factor is the double 2.38, and a
  card whose next interval lies beyond the range of dates.
\<close>

definition newCard :: Flashcard where
  "newCard = sampleCard\<lparr> interval := 1, repetitions := 0 \<rparr>"

definition driftCard :: Flashcard where
  "driftCard = sampleCard\<lparr> easeFactor := fl 2.38, interval := 275, repetitions := 6 \<rparr>"

definition farCard :: Flashcard where
  "farCard = sampleCard\<lparr> interval := 100000000 \<rparr>"

section \<open>Adaptive feedback (evidence-learning.ts, getAdaptiveFeedback)\<close>

datatype feedbackLevel = excellent | good | needs_review | struggling

text \<open>
  The \<^verbatim>\<open>message\<close> and \<^verbatim>\<open>suggestedAction\<close> fields are fixed text, one pair per
  branch, and are not modelled. An omitted (\<^verbatim>\<open>undefined\<close>) argument is \<^const>\<open>None\<close> and
  takes the default of the parameter list.
\<close>

record AdaptiveFeedback =
  level :: feedbackLevel
  adjustedDifficulty :: difficulty

definition getAdaptiveFeedback ::
  "Flashcard \<Rightarrow> bool \<Rightarrow> int option \<Rightarrow> int option \<Rightarrow> AdaptiveFeedback" where
  "getAdaptiveFeedback crd isCorrect responseTimeMs_arg streak_arg =
     (let responseTimeMs = (case responseTimeMs_arg of None \<Rightarrow> 10000 | Some t \<Rightarrow> t);
          streak = (case streak_arg of None \<Rightarrow> 0 | Some s \<Rightarrow> s);
          fastThreshold = 8000
      in if isCorrect \<and> responseTimeMs < fastThreshold \<and> streak \<ge> 2
         then \<lparr> level = excellent, adjustedDifficulty = Easy \<rparr>
         else if isCorrect \<and> responseTimeMs < fastThreshold
         then \<lparr> level = good, adjustedDifficulty = Easy \<rparr>
         else if isCorrect
         then \<lparr> level = good, adjustedDifficulty = Medium \<rparr>
         else if streak = 0
         then \<lparr> level = struggling, adjustedDifficulty = Hard \<rparr>
         else \<lparr> level = needs_review, adjustedDifficulty = Medium \<rparr>)"

text \<open>The decision table of the specification, rows in order, on explicit arguments.\<close>

definition feedbackTable :: "bool \<Rightarrow> int \<Rightarrow> int \<Rightarrow> feedbackLevel \<times> difficulty" where
  "feedbackTable isCorrect responseTimeMs streak =
     (if isCorrect \<and> responseTimeMs < 8000 \<and> streak \<ge> 2 then (excellent, Easy)
      else if isCorrect \<and> responseTimeMs < 8000 then (good, Easy)
      else if isCorrect then (good, Medium)
      else if streak = 0 then (struggling, Hard)
      else (needs_review, Medium))"

definition withDefault :: "'a \<Rightarrow> 'a option \<Rightarrow> 'a" where
  "withDefault d x = (case x of None \<Rightarrow> d | Some v \<Rightarrow> v)"


section \<open>Study order (flashcard.ts, sortCardsForStudy; evidence-learning.ts, difficultyToNumber)\<close>

definition difficultyToNumber :: "difficulty \<Rightarrow> int" where
  "difficultyToNumber d = (case d of Easy \<Rightarrow> 1 | Medium \<Rightarrow> 2 | Hard \<Rightarrow> 3)"

definition diffMap :: "difficulty \<Rightarrow> int" where
  "diffMap d = (case d of Hard \<Rightarrow> 0 | Medium \<Rightarrow> 1 | Easy \<Rightarrow> 2)"

text \<open>The comparison callback handed to \<^verbatim>\<open>sort\<close>.\<close>

definition studyComparator :: "Flashcard \<Rightarrow> Flashcard \<Rightarrow> real" where
  "studyComparator a b =
     (let dateDiff = nextReviewDate a - nextReviewDate b in
      if dateDiff \<noteq> 0 then real_of_int dateDiff
      else let diffDiff = diffMap (difficulty a) - diffMap (difficulty b) in
           if diffDiff \<noteq> 0 then real_of_int diffDiff
           else easeFactor a - easeFactor b)"

text \<open>
  \<^verbatim>\<open>Array.prototype.sort\<close> with a comparison callback is a stable sort (ECMAScript 2019);
  the algorithm is left to the engine. It is modelled by stable insertion: an element goes
  in front of the first later element that the callback does not order before it.
\<close>

fun insertSorted :: "('a \<Rightarrow> 'a \<Rightarrow> real) \<Rightarrow> 'a \<Rightarrow> 'a list \<Rightarrow> 'a list" where
  "insertSorted cmp x [] = [x]"
| "insertSorted cmp x (y # ys) =
     (if cmp x y \<le> 0 then x # y # ys else y # insertSorted cmp x ys)"

definition array_sort :: "('a \<Rightarrow> 'a \<Rightarrow> real) \<Rightarrow> 'a list \<Rightarrow> 'a list" where
  "array_sort cmp xs = foldr (insertSorted cmp) xs []"

definition sortCardsForStudy :: "Flashcard list \<Rightarrow> Flashcard list" where
  "sortCardsForStudy cs = array_sort studyComparator cs"

text \<open>The three sort keys of a card, in order of precedence.\<close>

definition studyKey :: "Flashcard \<Rightarrow> int \<times> int \<times> real" where
  "studyKey c = (nextReviewDate c, diffMap (difficulty c), easeFactor c)"

definition hardCard :: Flashcard where
  "hardCard = sampleCard\<lparr> card_id := ''c2'', difficulty := Hard \<rparr>"

definition twinCard :: Flashcard where
  "twinCard = sampleCard\<lparr> card_id := ''c3'' \<rparr>"

definition earlyCard :: Flashcard where
  "earlyCard = sampleCard\<lparr> card_id := ''c4'', nextReviewDate := -5, difficulty := Easy \<rparr>"


section \<open>Deck composers (evidence-learning.ts)\<close>

text \<open>
  A derived deck is modelled by its \<^verbatim>\<open>cards\<close> field; its other fields are a generated
  identifier, fixed labels and timestamps. \<^verbatim>\<open>slice(0, e)\<close> counts a negative end from
  the end of the array.
\<close>

definition slice0 :: "int \<Rightarrow> 'a list \<Rightarrow> 'a list" where
  "slice0 e xs = (if e < 0 then take (nat (int (length xs) + e)) xs else take (nat e) xs)"

text \<open>\<^verbatim>\<open>String.prototype.includes\<close>: the needle occurs as a contiguous part.\<close>

fun str_includes :: "string \<Rightarrow> string \<Rightarrow> bool" where
  "str_includes [] needle = (needle = [])"
| "str_includes (c # cs) needle =
     (take (length needle) (c # cs) = needle \<or> str_includes cs needle)"

record DeliberatePracticeConfig =
  focusAreas :: "string list"
  difficultyLevel :: "difficulty option"
  maxCards :: int
  adaptiveThreshold :: real

text \<open>
  The test applied to each card while collecting. \<open>lc\<close> stands for
  \<^verbatim>\<open>toLowerCase\<close>. A card has no \<^verbatim>\<open>category\<close> property, so the category compared is
  the deck's, or the empty string.
\<close>

definition focusMatch ::
  "(string \<Rightarrow> string) \<Rightarrow> DeliberatePracticeConfig \<Rightarrow> FlashcardDeck \<Rightarrow> Flashcard \<Rightarrow> bool" where
  "focusMatch lc config deck crd =
     (if focusAreas config \<noteq> [] then
        (let cardTags = map lc (case tags crd of None \<Rightarrow> [] | Some ts \<Rightarrow> ts);
             cardCategory = lc (case category deck of None \<Rightarrow> [] | Some s \<Rightarrow> s)
         in list_ex (\<lambda>area. List.member cardTags (lc area) \<or> str_includes cardCategory (lc area))
              (focusAreas config))
      else True)"

definition difficultyMatch :: "DeliberatePracticeConfig \<Rightarrow> Flashcard \<Rightarrow> bool" where
  "difficultyMatch config crd =
     (case difficultyLevel config of
        None \<Rightarrow> True
      | Some lvl \<Rightarrow>
          (let diffNum = difficultyToNumber lvl;
               ef = easeFactor crd;
               cardDiffNum = (if ef < 2.0 then 3 else if ef < 2.5 then 2 else 1);
               threshold = adaptiveThreshold config
           in real_of_int \<bar>cardDiffNum - diffNum\<bar> \<le> threshold))"

text \<open>The array \<^verbatim>\<open>allCards\<close> after both filters, before truncation.\<close>

definition matchingCards ::
  "(string \<Rightarrow> string) \<Rightarrow> FlashcardDeck list \<Rightarrow> DeliberatePracticeConfig \<Rightarrow> Flashcard list" where
  "matchingCards lc allDecks config =
     filter (difficultyMatch config)
       (concat (map (\<lambda>deck. filter (focusMatch lc config deck) (cards deck)) allDecks))"

definition createDeliberatePracticeDeck ::
  "(string \<Rightarrow> string) \<Rightarrow> FlashcardDeck list \<Rightarrow> DeliberatePracticeConfig \<Rightarrow> Flashcard list" where
  "createDeliberatePracticeDeck lc allDecks config =
     (let allCards = matchingCards lc allDecks config;
          limit = (if maxCards config \<noteq> 0 then maxCards config else 20)
      in slice0 limit allCards)"

datatype shuffleMode = Random | RoundRobin | Weighted

record InterleavedConfig =
  deckIds :: "string list"
  cardsPerDeck :: int
  shuffleMode :: shuffleMode

definition cardGroups :: "FlashcardDeck list \<Rightarrow> InterleavedConfig \<Rightarrow> Flashcard list list" where
  "cardGroups allDecks config =
     (let targetDecks = (if deckIds config \<noteq> []
                         then filter (\<lambda>d. List.member (deckIds config) (deck_id d)) allDecks
                         else allDecks)
      in map (\<lambda>deck. if cardsPerDeck config \<noteq> 0
                      then slice0 (cardsPerDeck config) (cards deck)
                      else cards deck) targetDecks)"

definition roundRobin :: "'a list list \<Rightarrow> 'a list" where
  "roundRobin groups =
     (let maxLen = fold max (map length groups) 0
      in concat (map (\<lambda>i. concat (map (\<lambda>group. if i < length group then [group ! i] else [])
                                      groups))
                   [0..<maxLen]))"

text \<open>
  The Fisher-Yates loop, \<open>i\<close> running from the last index down to 1. \<open>rnd k\<close> is the
  value of the \<open>k\<close>-th call of \<^verbatim>\<open>Math.random()\<close>, a number in \<open>[0, 1)\<close>, so that
  \<open>j \<le> i\<close>.
\<close>

fun fisherYates_loop :: "(nat \<Rightarrow> real) \<Rightarrow> nat \<Rightarrow> nat \<Rightarrow> 'a list \<Rightarrow> 'a list" where
  "fisherYates_loop rnd k 0 xs = xs"
| "fisherYates_loop rnd k (Suc i') xs =
     (let i = Suc i';
          j = nat \<lfloor>rnd k * real (i + 1)\<rfloor>
      in fisherYates_loop rnd (Suc k) i' (xs[i := xs ! j, j := xs ! i]))"

definition fisherYates :: "(nat \<Rightarrow> real) \<Rightarrow> 'a list \<Rightarrow> 'a list" where
  "fisherYates rnd xs = fisherYates_loop rnd 0 (length xs - 1) xs"

definition createInterleavedDeck ::
  "(nat \<Rightarrow> real) \<Rightarrow> FlashcardDeck list \<Rightarrow> InterleavedConfig \<Rightarrow> Flashcard list" where
  "createInterleavedDeck rnd allDecks config =
     (let groups = cardGroups allDecks config
      in if shuffleMode config = RoundRobin then roundRobin groups
         else fisherYates rnd (concat groups))"

text \<open>
  What a caller of \<^const>\<open>createInterleavedDeck\<close> observes: the body has no \<^verbatim>\<open>throw\<close> and
  no check of the shuffle mode, so every call completes with a deck.
\<close>

definition createInterleavedDeck_outcome ::
  "(nat \<Rightarrow> real) \<Rightarrow> FlashcardDeck list \<Rightarrow> InterleavedConfig \<Rightarrow> error + Flashcard list" where
  "createInterleavedDeck_outcome rnd allDecks config = Inr (createInterleavedDeck rnd allDecks config)"

text \<open>Each card of each group paired with the position of its group (its source deck).\<close>

definition tagBySource :: "'a list list \<Rightarrow> (nat \<times> 'a) list list" where
  "tagBySource groups = map (\<lambda>k. map (Pair k) (groups ! k)) [0..<length groups]"

text \<open>
  A sequence of sources in which two neighbours are equal only when every later
  element is the same source as well.
\<close>

fun repeatsOnlyAlone :: "'a list \<Rightarrow> bool" where
  "repeatsOnlyAlone (a # b # xs) =
     ((if a = b then list_all (\<lambda>x. x = a) xs else True) \<and> repeatsOnlyAlone (b # xs))"
| "repeatsOnlyAlone xs = True"

definition numberedCard :: "nat \<Rightarrow> Flashcard" where
  "numberedCard n = sampleCard\<lparr> interval := int n \<rparr>"

definition deckOf :: "string \<Rightarrow> Flashcard list \<Rightarrow> FlashcardDeck" where
  "deckOf i cs = \<lparr> deck_id = i, name = i, cards = cs, category = None \<rparr>"


text \<open>The cards pushed in round \<open>i\<close> of the round-robin loop (one pass over the groups).\<close>

definition roundAt :: "nat \<Rightarrow> 'a list list \<Rightarrow> 'a list" where
  "roundAt i groups = concat (map (\<lambda>group. if i < length group then [group ! i] else []) groups)"

definition allDecksConfig :: "shuffleMode \<Rightarrow> InterleavedConfig" where
  "allDecksConfig m = \<lparr> deckIds = [], cardsPerDeck = 0, shuffleMode = m \<rparr>"

definition threeDecks :: "FlashcardDeck list" where
  "threeDecks = [deckOf ''a'' [numberedCard 1, numberedCard 2],
                 deckOf ''b'' [numberedCard 3, numberedCard 4, numberedCard 5],
                 deckOf ''c'' [numberedCard 6]]"

definition practiceConfig :: "int \<Rightarrow> DeliberatePracticeConfig" where
  "practiceConfig n = \<lparr> focusAreas = [], difficultyLevel = None, maxCards = n,
                         adaptiveThreshold = 0 \<rparr>"

section \<open>Weakness analysis (ai-enhanced.ts, analyzeWeaknessPatterns)\<close>

text \<open>
  The first loop of \<^verbatim>\<open>analyzeWeaknessPatterns\<close>, which fills \<^verbatim>\<open>chapterStats\<close>. The object
  is modelled by the map from its own property names to their values; the order in
  which a later loop enumerates them is not part of it. The interface \<^verbatim>\<open>FlashcardDeck\<close>
  declares \<^verbatim>\<open>name\<close> and no property \<^verbatim>\<open>title\<close>, so reading \<^verbatim>\<open>deck.title\<close> yields
  \<^verbatim>\<open>undefined\<close> (\<^const>\<open>None\<close>); used as a property key, \<^verbatim>\<open>undefined\<close> is the string
  "undefined". The sums are double sums; one that reaches \<open>2 ^ 1024\<close> is infinite in the
  source, which takes repetition counts of that order and is outside the model.
\<close>

definition deck_title :: "FlashcardDeck \<Rightarrow> string option" where
  "deck_title deck = None"

text \<open>\<^verbatim>\<open>a || b\<close> on values that are a string or \<^verbatim>\<open>undefined\<close>: the empty string is falsy.\<close>

definition js_or :: "string option \<Rightarrow> string option \<Rightarrow> string option" where
  "js_or a b = (case a of None \<Rightarrow> b | Some s \<Rightarrow> if s \<noteq> [] then Some s else b)"

definition propertyKey :: "string option \<Rightarrow> string" where
  "propertyKey v = (case v of None \<Rightarrow> ''undefined'' | Some s \<Rightarrow> s)"

text \<open>
  The property names that every object inherits from \<^verbatim>\<open>Object.prototype\<close>. Reading one
  of them from \<^verbatim>\<open>chapterStats\<close> yields the inherited function or object, which is truthy
  and has no \<^verbatim>\<open>cards\<close>: no entry is created, and for the first card of the deck
  \<^verbatim>\<open>.cards.push\<close> throws \<open>TypeError\<close> (after \<^verbatim>\<open>total\<close> and \<^verbatim>\<open>correct\<close> were written to
  the inherited value, which the model does not record).
\<close>

definition objectPrototypeKeys :: "string list" where
  "objectPrototypeKeys =
     [''constructor'', ''hasOwnProperty'', ''isPrototypeOf'', ''propertyIsEnumerable'',
      ''toLocaleString'', ''toString'', ''valueOf'', ''__proto__'',
      ''__defineGetter__'', ''__defineSetter__'', ''__lookupGetter__'', ''__lookupSetter__'']"

record ChapterStat =
  total :: real
  correct :: real
  stat_cards :: "string list"

definition chapterLabel :: "FlashcardDeck \<Rightarrow> string" where
  "chapterLabel deck = propertyKey (js_or (category deck) (deck_title deck))"

definition addCard :: "ChapterStat \<Rightarrow> Flashcard \<Rightarrow> ChapterStat" where
  "addCard st crd =
     (let ef = easeFactor crd;
          successRate = (if ef \<ge> 2.5 then fl 0.8 else if ef \<ge> 2.0 then 0.5 else fl 0.2)
      in st\<lparr> total := fl (total st + real_of_int (repetitions crd)),
              correct := fl (correct st
                             + real_of_int (mathRound (fl (real_of_int (repetitions crd)
                                                          * successRate)))),
              stat_cards := stat_cards st @ [card_id crd] \<rparr>)"

definition addDeck :: "(string \<rightharpoonup> ChapterStat) \<Rightarrow> FlashcardDeck \<Rightarrow> error + (string \<rightharpoonup> ChapterStat)" where
  "addDeck stats deck =
     (let label = chapterLabel deck in
      if List.member objectPrototypeKeys label
      then (if cards deck = [] then Inr stats else Inl TypeError)
      else (let st0 = (case stats label of
                         None \<Rightarrow> \<lparr> total = 0, correct = 0, stat_cards = [] \<rparr>
                       | Some st \<Rightarrow> st)
            in Inr (stats(label \<mapsto> foldl addCard st0 (cards deck)))))"

fun addDecks :: "(string \<rightharpoonup> ChapterStat) \<Rightarrow> FlashcardDeck list \<Rightarrow> error + (string \<rightharpoonup> ChapterStat)" where
  "addDecks stats [] = Inr stats"
| "addDecks stats (deck # decks) =
     (case addDeck stats deck of
        Inl e \<Rightarrow> Inl e
      | Inr stats' \<Rightarrow> addDecks stats' decks)"

definition chapterStats :: "FlashcardDeck list \<Rightarrow> error + (string \<rightharpoonup> ChapterStat)" where
  "chapterStats decks = addDecks Map.empty decks"

definition biologyDeck :: FlashcardDeck where
  "biologyDeck = \<lparr> deck_id = ''d1'', name = ''Biology'',
                    cards = [sampleCard\<lparr> repetitions := 3 \<rparr>], category = None \<rparr>"

definition chemistryDeck :: FlashcardDeck where
  "chemistryDeck = \<lparr> deck_id = ''d2'', name = ''Chemistry'',
                      cards = [hardCard\<lparr> easeFactor := 1.5, repetitions := 5 \<rparr>],
                      category = None \<rparr>"

section \<open>Metacognition score (evidence-learning.ts, calculateMetacognitionScore)\<close>

text \<open>
  An answer is a number, a string or a boolean; a question without an entry in the
  answers object reads \<^verbatim>\<open>undefined\<close> (\<^const>\<open>None\<close>). Sums, quotient and product are
  double operations; answers and scales so large that a sum reaches \<open>2 ^ 1024\<close> are
  outside the model.
\<close>

datatype answer = ANum real | AStr string | ABool bool

datatype questionType = Rating | YesNo | Selection | TextQ

record MetacognitionQuestion =
  question_id :: string
  qtype :: questionType
  scale :: "real option"
  options :: "string list option"

text \<open>\<^verbatim>\<open>Array.prototype.indexOf\<close>: the first position of the value, or -1.\<close>

fun indexOf :: "'a list \<Rightarrow> 'a \<Rightarrow> int" where
  "indexOf [] x = -1"
| "indexOf (y # ys) x =
     (if y = x then 0 else (let r = indexOf ys x in if r < 0 then -1 else r + 1))"

text \<open>One pass of the \<^verbatim>\<open>forEach\<close> body over the running \<open>(totalScore, maxScore)\<close>.\<close>

definition scoreStep ::
  "(string \<rightharpoonup> answer) \<Rightarrow> real \<times> real \<Rightarrow> MetacognitionQuestion \<Rightarrow> real \<times> real" where
  "scoreStep answers acc q =
     (let (totalScore, maxScore) = acc in
      case answers (question_id q) of
        None \<Rightarrow> (totalScore, maxScore)
      | Some answer \<Rightarrow>
          if answer = AStr [] then (totalScore, maxScore)
          else (case qtype q of
             Rating \<Rightarrow>
               (let scale' = (case scale q of None \<Rightarrow> 5 | Some s \<Rightarrow> if s = 0 then 5 else s)
                in (fl (totalScore + (case answer of ANum n \<Rightarrow> n | _ \<Rightarrow> 0)),
                    fl (maxScore + scale')))
           | YesNo \<Rightarrow>
               (fl (totalScore + (if answer = ABool True then 1 else 0)), fl (maxScore + 1))
           | Selection \<Rightarrow>
               (let options' = (case options q of None \<Rightarrow> [] | Some os \<Rightarrow> os);
                    idx = (case answer of AStr s \<Rightarrow> indexOf options' s | _ \<Rightarrow> -1)
                in (fl (totalScore
                        + (if idx \<ge> 0 then real_of_int (int (length options') - idx) else 0)),
                    fl (maxScore + real (length options'))))
           | TextQ \<Rightarrow>
               (fl (totalScore
                    + (case answer of AStr s \<Rightarrow> if length s > 0 then 1 else 0 | _ \<Rightarrow> 0)),
                fl (maxScore + 1))))"

definition calculateMetacognitionScore ::
  "(string \<rightharpoonup> answer) \<Rightarrow> MetacognitionQuestion list \<Rightarrow> int" where
  "calculateMetacognitionScore answers questions =
     (if length questions = 0 then 0
      else (let (totalScore, maxScore) = foldl (scoreStep answers) (0, 0) questions
            in if maxScore > 0 then mathRound (fl (fl (totalScore / maxScore) * 100)) else 0))"

definition ratingQuestion :: "string \<Rightarrow> MetacognitionQuestion" where
  "ratingQuestion i = \<lparr> question_id = i, qtype = Rating, scale = Some 5, options = None \<rparr>"

text \<open>
  A rating question is answered within its scale: the effective scale is not negative and
  a numeric answer lies between 0 and it.
\<close>

definition ratingInScale :: "(string \<rightharpoonup> answer) \<Rightarrow> MetacognitionQuestion \<Rightarrow> bool" where
  "ratingInScale answers q =
     (if qtype q = Rating then
        (let scale' = (case scale q of None \<Rightarrow> 5 | Some s \<Rightarrow> if s = 0 then 5 else s)
         in 0 \<le> scale' \<and>
            (case answers (question_id q) of Some (ANum n) \<Rightarrow> 0 \<le> n \<and> n \<le> scale' | _ \<Rightarrow> True))
      else True)"

section \<open>Properties of double arithmetic\<close>

lemma minNormalScale_pos: "0 < minNormalScale"
  by (simp add: minNormalScale_def)

lemma pow2_shift: "(2::real) powi (int n - 1022) * minNormalScale = 2 ^ n"
proof -
  have "(2::real) powi (int n - 1022) * 2 powi 1022 = 2 powi (int n - 1022 + 1022)"
    by (rule power_int_add [symmetric]) simp
  moreover have "(2::real) powi 1022 = minNormalScale"
    by (simp add: minNormalScale_def power_int_def)
  ultimately show ?thesis by (simp add: power_int_def)
qed

lemma expo_eq:
  assumes "- 1022 \<le> k" "2 powi k \<le> \<bar>x\<bar>" "\<bar>x\<bar> < 2 powi (k + 1)"
  shows "expo x = k"
proof -
  define n where "n = nat (k + 1022)"
  have k: "k = int n - 1022" using assms(1) by (simp add: n_def)
  have k1: "k + 1 = int (Suc n) - 1022" using k by simp
  have "2 powi k * minNormalScale \<le> \<bar>x\<bar> * minNormalScale"
    using assms(2) minNormalScale_pos by simp
  then have lo: "2 ^ n \<le> \<bar>x\<bar> * minNormalScale" by (simp only: k pow2_shift)
  have "\<bar>x\<bar> * minNormalScale < 2 powi (k + 1) * minNormalScale"
    using assms(3) minNormalScale_pos by simp
  then have hi: "\<bar>x\<bar> * minNormalScale < 2 ^ Suc n" by (simp only: k1 pow2_shift)
  define m where "m = \<lfloor>\<bar>x\<bar> * minNormalScale\<rfloor>"
  have mlo: "2 ^ n \<le> m"
  proof -
    have "real_of_int (2 ^ n) \<le> \<bar>x\<bar> * minNormalScale" using lo by simp
    then show ?thesis unfolding m_def by (simp only: le_floor_iff)
  qed
  have mhi: "m < 2 ^ Suc n"
  proof -
    have "\<bar>x\<bar> * minNormalScale < real_of_int (2 ^ Suc n)" using hi by simp
    then show ?thesis unfolding m_def by (simp only: floor_less_iff)
  qed
  have mpos: "0 < m" using mlo by (smt (verit) zero_less_power)
  have "bitlen m = int n + 1"
  proof -
    from bitlen_bounds [OF mpos]
    have b: "2 ^ nat (bitlen m - 1) \<le> m" "m < 2 ^ nat (bitlen m)" by simp_all
    have "(2::int) ^ n < 2 ^ nat (bitlen m)" using mlo b(2) by linarith
    then have 1: "n < nat (bitlen m)" by (simp add: power_strict_increasing_iff)
    have "(2::int) ^ nat (bitlen m - 1) < 2 ^ Suc n" using mhi b(1) by linarith
    then have 2: "nat (bitlen m - 1) < Suc n" by (simp only: power_strict_increasing_iff)
    from 1 2 show ?thesis by linarith
  qed
  moreover have "max 1 m = m" using mpos by simp
  ultimately show ?thesis unfolding expo_def m_def [symmetric] by (simp only: k)
qed

text \<open>Evaluating \<^const>\<open>fl\<close> at a number whose binary exponent \<open>k\<close> is known.\<close>

lemma fl_evalI:
  assumes "- 1022 \<le> k" "2 powi k \<le> \<bar>x\<bar>" "\<bar>x\<bar> < 2 powi (k + 1)"
    and "of_int (roundHalfEven (x / 2 powi (k - 52))) * 2 powi (k - 52) = y"
  shows "fl x = y"
  using assms(4) by (simp add: fl_def expo_eq [OF assms(1-3)])

lemma pow2_numeral:
  "(2::real) powi (numeral n) = 2 ^ numeral n"
  "(2::real) powi (- numeral n) = 1 / 2 ^ numeral n"
  "(2::real) powi 0 = 1" "(2::real) powi 1 = 2" "(2::real) powi (- 1) = 1 / 2"
  by (simp_all add: power_int_def field_simps)

lemma roundHalfEven_of_int [simp]: "roundHalfEven (of_int j) = j"
  by (simp add: roundHalfEven_def)

lemma fl_0 [simp]: "fl 0 = 0"
  using roundHalfEven_of_int [of 0] by (simp add: fl_def)

text \<open>The exponent bounds its argument, and rounding is monotone and odd.\<close>

lemma bitlen_mono: "a \<le> b \<Longrightarrow> bitlen a \<le> bitlen b"
proof (cases "0 < a")
  case False
  then show ?thesis by (simp add: bitlen_alt_def)
next
  case True
  assume ab: "a \<le> b"
  with True have b: "0 < b" by simp
  from True ab have "log 2 (real_of_int a) \<le> log 2 (real_of_int b)" by simp
  then have "\<lfloor>log 2 (real_of_int a)\<rfloor> \<le> \<lfloor>log 2 (real_of_int b)\<rfloor>" by (rule floor_mono)
  with True b show ?thesis by (simp add: bitlen_alt_def)
qed

lemma expo_mono: "\<bar>x\<bar> \<le> \<bar>y\<bar> \<Longrightarrow> expo x \<le> expo y"
proof -
  assume "\<bar>x\<bar> \<le> \<bar>y\<bar>"
  then have "\<bar>x\<bar> * minNormalScale \<le> \<bar>y\<bar> * minNormalScale"
    using minNormalScale_pos by simp
  then have "\<lfloor>\<bar>x\<bar> * minNormalScale\<rfloor> \<le> \<lfloor>\<bar>y\<bar> * minNormalScale\<rfloor>" by (rule floor_mono)
  then have "max 1 \<lfloor>\<bar>x\<bar> * minNormalScale\<rfloor> \<le> max 1 \<lfloor>\<bar>y\<bar> * minNormalScale\<rfloor>" by simp
  then have "bitlen (max 1 \<lfloor>\<bar>x\<bar> * minNormalScale\<rfloor>) \<le> bitlen (max 1 \<lfloor>\<bar>y\<bar> * minNormalScale\<rfloor>)"
    by (rule bitlen_mono)
  then show ?thesis unfolding expo_def by simp
qed

lemma expo_ge: "- 1022 \<le> expo x"
proof -
  have "bitlen 1 \<le> bitlen (max 1 \<lfloor>\<bar>x\<bar> * minNormalScale\<rfloor>)" by (rule bitlen_mono) simp
  moreover have "bitlen 1 = 1" by (simp add: bitlen_alt_def)
  ultimately show ?thesis unfolding expo_def by simp
qed

lemma expo_upper: "\<bar>x\<bar> < 2 powi (expo x + 1)"
proof -
  define m where "m = max 1 \<lfloor>\<bar>x\<bar> * minNormalScale\<rfloor>"
  have mpos: "0 < m" by (simp add: m_def)
  define n where "n = nat (bitlen m)"
  have bl: "bitlen m = int n" using bitlen_nonneg [of m] by (simp add: n_def)
  have e: "expo x + 1 = int n - 1022" unfolding expo_def m_def [symmetric] bl by simp
  from bitlen_bounds [OF mpos] have "m < 2 ^ n" by (simp add: n_def)
  then have "m + 1 \<le> 2 ^ n" by simp
  moreover have "\<lfloor>\<bar>x\<bar> * minNormalScale\<rfloor> \<le> m" by (simp add: m_def)
  ultimately have "\<lfloor>\<bar>x\<bar> * minNormalScale\<rfloor> + 1 \<le> 2 ^ n" by linarith
  then have "real_of_int (\<lfloor>\<bar>x\<bar> * minNormalScale\<rfloor> + 1) \<le> real_of_int (2 ^ n)"
    by (simp only: of_int_le_iff)
  moreover have "\<bar>x\<bar> * minNormalScale < real_of_int (\<lfloor>\<bar>x\<bar> * minNormalScale\<rfloor> + 1)"
    by linarith
  ultimately have "\<bar>x\<bar> * minNormalScale < real_of_int (2 ^ n)" by (rule order_less_le_trans [rotated])
  then have "\<bar>x\<bar> * minNormalScale < 2 ^ n" by simp
  also have "\<dots> = 2 powi (int n - 1022) * minNormalScale" by (simp only: pow2_shift)
  finally have "\<bar>x\<bar> < 2 powi (int n - 1022)" using minNormalScale_pos by simp
  then show ?thesis by (simp only: e)
qed

lemma expo_lower: "- 1022 < expo x \<Longrightarrow> 2 powi (expo x) \<le> \<bar>x\<bar>"
proof -
  assume normal: "- 1022 < expo x"
  define m where "m = max 1 \<lfloor>\<bar>x\<bar> * minNormalScale\<rfloor>"
  have mpos: "0 < m" by (simp add: m_def)
  define n where "n = nat (bitlen m - 1)"
  have e: "expo x = bitlen m - 1 - 1022" unfolding expo_def m_def [symmetric] by simp
  with normal have n1: "1 \<le> bitlen m - 1" by simp
  then have bl: "bitlen m - 1 = int n" by (simp add: n_def)
  from n1 have npos: "0 < n" by (simp add: n_def)
  from bitlen_bounds [OF mpos] have mn: "2 ^ n \<le> m" by (simp add: n_def)
  have "(2::int) ^ 1 \<le> 2 ^ n" using npos by (intro power_increasing) simp_all
  with mn have "2 \<le> m" by simp
  then have m: "m = \<lfloor>\<bar>x\<bar> * minNormalScale\<rfloor>" by (simp add: m_def max_def split: if_splits)
  from mn have "real_of_int (2 ^ n) \<le> real_of_int m" by (simp only: of_int_le_iff)
  also have "\<dots> \<le> \<bar>x\<bar> * minNormalScale" unfolding m by (rule of_int_floor_le)
  finally have "2 ^ n \<le> \<bar>x\<bar> * minNormalScale" by simp
  also have "(2::real) ^ n = 2 powi (int n - 1022) * minNormalScale" by (simp only: pow2_shift)
  finally have "2 powi (int n - 1022) \<le> \<bar>x\<bar>" using minNormalScale_pos by simp
  then show ?thesis by (simp only: e bl)
qed

lemma roundHalfEven_cases:
  "roundHalfEven x = \<lfloor>x\<rfloor> \<or> roundHalfEven x = \<lfloor>x\<rfloor> + 1"
  by (simp add: roundHalfEven_def Let_def)

lemma roundHalfEven_mono: "a \<le> b \<Longrightarrow> roundHalfEven a \<le> roundHalfEven b"
proof -
  assume ab: "a \<le> b"
  then have f: "\<lfloor>a\<rfloor> \<le> \<lfloor>b\<rfloor>" by (rule floor_mono)
  show ?thesis
  proof (cases "\<lfloor>a\<rfloor> = \<lfloor>b\<rfloor>")
    case True
    with ab show ?thesis by (simp add: roundHalfEven_def Let_def)
  next
    case False
    with f have "\<lfloor>a\<rfloor> + 1 \<le> \<lfloor>b\<rfloor>" by simp
    with roundHalfEven_cases [of a] roundHalfEven_cases [of b] show ?thesis by linarith
  qed
qed

lemma roundHalfEven_minus: "roundHalfEven (- a) = - roundHalfEven a"
proof (cases "a = of_int \<lfloor>a\<rfloor>")
  case True
  then obtain j where j: "a = of_int j" ..
  have "roundHalfEven (of_int (- j)) = - j" by (simp only: roundHalfEven_of_int)
  then show ?thesis by (simp add: j)
next
  case False
  then have fm: "\<lfloor>- a\<rfloor> = - \<lfloor>a\<rfloor> - 1"
    by (simp add: floor_minus ceiling_altdef)
  define f where "f = \<lfloor>a\<rfloor>"
  define d where "d = a - of_int f"
  have d: "0 < d" "d < 1"
    using False by (simp_all add: d_def f_def) linarith+
  have a: "a = of_int f + d" by (simp add: d_def)
  have pos: "roundHalfEven a = (if d < 1/2 then f else if 1/2 < d then f + 1
               else if even f then f else f + 1)"
    by (simp add: roundHalfEven_def Let_def d_def f_def)
  have neg: "roundHalfEven (- a) = (if 1 - d < 1/2 then - f - 1 else if 1/2 < 1 - d then - f
               else if even (- f - 1) then - f - 1 else - f)"
    unfolding roundHalfEven_def Let_def fm f_def [symmetric] by (simp add: a)
  show ?thesis unfolding pos neg using d by auto
qed

lemma fl_eq:
  "fl x = of_int (roundHalfEven (x / 2 powi (expo x - 52))) * 2 powi (expo x - 52)"
  by (simp add: fl_def Let_def)

lemma expo_minus [simp]: "expo (- x) = expo x"
  by (simp add: expo_def)

lemma fl_minus: "fl (- x) = - fl x"
  by (simp add: fl_eq roundHalfEven_minus)

lemma fl_nonneg: "0 \<le> x \<Longrightarrow> 0 \<le> fl x"
proof -
  assume "0 \<le> x"
  then have "of_int 0 \<le> x / 2 powi (expo x - 52)" by simp
  then have "roundHalfEven (of_int 0) \<le> roundHalfEven (x / 2 powi (expo x - 52))"
    by (rule roundHalfEven_mono)
  then have "0 \<le> roundHalfEven (x / 2 powi (expo x - 52))"
    by (simp only: roundHalfEven_of_int)
  then show ?thesis by (simp add: fl_eq)
qed

lemma fl_upper:
  assumes "0 \<le> x"
  shows "fl x \<le> 2 powi (expo x + 1)"
proof -
  define u :: real where "u = 2 powi (expo x - 52)"
  have upos: "0 < u" by (simp add: u_def)
  have split: "(2::real) powi (expo x + 1) = of_int (2 ^ 53) * u"
  proof -
    have "(2::real) powi (expo x + 1) = 2 powi (53 + (expo x - 52))"
      by (rule arg_cong [where f = "\<lambda>k. 2 powi k"]) simp
    also have "\<dots> = 2 powi 53 * 2 powi (expo x - 52)" by (rule power_int_add) simp
    finally show ?thesis by (simp add: u_def power_int_def)
  qed
  from expo_upper [of x] assms have "x < of_int (2 ^ 53) * u"
    by (simp only: split abs_of_nonneg)
  then have "x / u \<le> of_int (2 ^ 53)" using upos by (simp add: field_simps)
  then have "roundHalfEven (x / u) \<le> roundHalfEven (of_int (2 ^ 53))"
    by (rule roundHalfEven_mono)
  then have "roundHalfEven (x / u) \<le> 2 ^ 53" by (simp only: roundHalfEven_of_int)
  then have "real_of_int (roundHalfEven (x / u)) \<le> real_of_int (2 ^ 53)"
    by (simp only: of_int_le_iff)
  then have "real_of_int (roundHalfEven (x / u)) * u \<le> real_of_int (2 ^ 53) * u"
    using upos by (simp only: mult_le_cancel_right_pos)
  then show ?thesis unfolding split by (simp add: fl_eq u_def)
qed

lemma fl_lower:
  assumes "0 \<le> x" "- 1022 < expo x"
  shows "2 powi (expo x) \<le> fl x"
proof -
  define u :: real where "u = 2 powi (expo x - 52)"
  have upos: "0 < u" by (simp add: u_def)
  have split: "(2::real) powi (expo x) = of_int (2 ^ 52) * u"
  proof -
    have "(2::real) powi (expo x) = 2 powi (52 + (expo x - 52))"
      by (rule arg_cong [where f = "\<lambda>k. 2 powi k"]) simp
    also have "\<dots> = 2 powi 52 * 2 powi (expo x - 52)" by (rule power_int_add) simp
    finally show ?thesis by (simp add: u_def power_int_def)
  qed
  from expo_lower [OF assms(2)] assms(1) have "of_int (2 ^ 52) * u \<le> x"
    by (simp only: split abs_of_nonneg)
  then have "of_int (2 ^ 52) \<le> x / u" using upos by (simp add: field_simps)
  then have "roundHalfEven (of_int (2 ^ 52)) \<le> roundHalfEven (x / u)"
    by (rule roundHalfEven_mono)
  then have "2 ^ 52 \<le> roundHalfEven (x / u)" by (simp only: roundHalfEven_of_int)
  then have "real_of_int (2 ^ 52) \<le> real_of_int (roundHalfEven (x / u))"
    by (simp only: of_int_le_iff)
  then have "real_of_int (2 ^ 52) * u \<le> real_of_int (roundHalfEven (x / u)) * u"
    using upos by (simp only: mult_le_cancel_right_pos)
  then show ?thesis unfolding split by (simp add: fl_eq u_def)
qed

lemma fl_mono_nonneg:
  assumes "0 \<le> x" "x \<le> y"
  shows "fl x \<le> fl y"
proof -
  from assms have y: "0 \<le> y" by simp
  from assms have "expo x \<le> expo y" by (intro expo_mono) simp
  then consider "expo x = expo y" | "expo x < expo y" by linarith
  then show ?thesis
  proof cases
    case 1
    define u :: real where "u = 2 powi (expo y - 52)"
    have upos: "0 < u" by (simp add: u_def)
    from assms(2) upos have "x / u \<le> y / u" by (simp add: divide_right_mono)
    then have "roundHalfEven (x / u) \<le> roundHalfEven (y / u)" by (rule roundHalfEven_mono)
    then have "real_of_int (roundHalfEven (x / u)) * u \<le> real_of_int (roundHalfEven (y / u)) * u"
      using upos by simp
    then show ?thesis by (simp add: fl_eq 1 u_def)
  next
    case 2
    with expo_ge [of x] have normal: "- 1022 < expo y" by simp
    have "fl x \<le> 2 powi (expo x + 1)" using assms(1) by (rule fl_upper)
    also have "\<dots> \<le> 2 powi (expo y)" using 2 by (intro power_int_increasing) simp_all
    also have "\<dots> \<le> fl y" using y normal by (rule fl_lower)
    finally show ?thesis .
  qed
qed

lemma fl_mono: "x \<le> y \<Longrightarrow> fl x \<le> fl y"
proof -
  assume xy: "x \<le> y"
  consider "0 \<le> x" | "y \<le> 0" | "x < 0" "0 < y" by linarith
  then show ?thesis
  proof cases
    case 1
    then show ?thesis using xy by (rule fl_mono_nonneg)
  next
    case 2
    then have "0 \<le> - y" "- y \<le> - x" using xy by simp_all
    then have "fl (- y) \<le> fl (- x)" by (rule fl_mono_nonneg)
    then show ?thesis by (simp add: fl_minus)
  next
    case 3
    then have "0 \<le> fl (- x)" "0 \<le> fl y" by (simp_all add: fl_nonneg)
    then show ?thesis by (simp add: fl_minus)
  qed
qed

text \<open>Integers up to \<open>2 ^ 53\<close> in magnitude are doubles.\<close>

lemma fl_of_int:
  assumes "\<bar>n\<bar> \<le> 2 ^ 53"
  shows "fl (of_int n) = of_int n"
proof (cases "n = 0")
  case True
  then show ?thesis by simp
next
  case False
  define m where "m = \<bar>n\<bar>"
  have mpos: "0 < m" using False by (simp add: m_def)
  define k where "k = bitlen m - 1"
  from bitlen_bounds [OF mpos]
  have b: "2 ^ nat k \<le> m" "m < 2 ^ nat (k + 1)" by (simp_all add: k_def)
  have k0: "0 \<le> k" using mpos by (simp add: k_def bitlen_alt_def)
  have "(2::int) ^ nat k \<le> 2 ^ 53" using b(1) assms by (simp add: m_def)
  then have "nat k \<le> 53" by (simp only: power_increasing_iff)
  then have k53: "k \<le> 53" by simp
  have lo: "2 powi k \<le> \<bar>real_of_int n\<bar>"
  proof -
    have "real_of_int (2 ^ nat k) \<le> real_of_int m" using b(1) by (simp only: of_int_le_iff)
    then show ?thesis using k0 by (simp add: power_int_def m_def)
  qed
  have hi: "\<bar>real_of_int n\<bar> < 2 powi (k + 1)"
  proof -
    have "real_of_int m < real_of_int (2 ^ nat (k + 1))" using b(2) by (simp only: of_int_less_iff)
    then show ?thesis using k0 by (simp add: power_int_def m_def)
  qed
  have e: "expo (of_int n) = k"
    using _ lo hi by (rule expo_eq) (use k0 in simp)
  show ?thesis
  proof (cases "k \<le> 52")
    case True
    define j where "j = n * 2 ^ nat (52 - k)"
    have u: "(2::real) powi (k - 52) = 1 / 2 ^ nat (52 - k)"
      using True by (cases "k = 52") (simp_all add: power_int_def field_simps)
    have "real_of_int n / 2 powi (k - 52) = of_int j"
      by (simp add: u j_def)
    then have "fl (of_int n) = of_int j * 2 powi (k - 52)"
      by (simp add: fl_def e)
    then show ?thesis by (simp add: u j_def)
  next
    case False
    with k53 have k: "k = 53" by simp
    with b(1) assms have "m = 2 ^ 53" by (simp add: m_def)
    then have "n = 2 ^ 53 \<or> n = - (2 ^ 53)" by (auto simp: m_def abs_if split: if_splits)
    then show ?thesis
      by (auto simp: fl_def e k roundHalfEven_def)
  qed
qed


lemma fl_numeral: "(numeral w :: int) \<le> 2 ^ 53 \<Longrightarrow> fl (numeral w) = numeral w"
  using fl_of_int [of "numeral w"] by simp

lemma fl_neg_numeral: "(numeral w :: int) \<le> 2 ^ 53 \<Longrightarrow> fl (- numeral w) = - numeral w"
  using fl_of_int [of "- numeral w"] by simp

lemma fl_1: "fl 1 = 1"
  using fl_of_int [of 1] by simp

lemmas fl_ints = fl_1 fl_numeral fl_neg_numeral

text \<open>
  The doubles of the literals and the roundings that the worked examples need, each at
  the exact value of the operation's result.
\<close>

lemma fl_at_0_1: "fl (1 / 10) = 3602879701896397 / 36028797018963968"
  by (rule fl_evalI [where k = "- 4"]) (simp_all add: pow2_numeral roundHalfEven_def)

lemma fl_at_0_08: "fl (2 / 25) = 5764607523034235 / 72057594037927936"
  by (rule fl_evalI [where k = "- 4"]) (simp_all add: pow2_numeral roundHalfEven_def)

lemma fl_at_0_02: "fl (1 / 50) = 5764607523034235 / 288230376151711744"
  by (rule fl_evalI [where k = "- 6"]) (simp_all add: pow2_numeral roundHalfEven_def)

lemma fl_at_1_3: "fl (13 / 10) = 5854679515581645 / 4503599627370496"
  by (rule fl_evalI [where k = "0"]) (simp_all add: pow2_numeral roundHalfEven_def)

lemma fl_at_2_38: "fl (119 / 50) = 2679641778285445 / 1125899906842624"
  by (rule fl_evalI [where k = "1"]) (simp_all add: pow2_numeral roundHalfEven_def)

lemma fl_at_2_68: "fl (67 / 25) = 6034823500676465 / 2251799813685248"
  by (rule fl_evalI [where k = "1"]) (simp_all add: pow2_numeral roundHalfEven_def)

lemma fl_at_0_8: "fl (4 / 5) = 3602879701896397 / 4503599627370496"
  by (rule fl_evalI [where k = "- 1"]) (simp_all add: pow2_numeral roundHalfEven_def)

lemma fl_at_0_2: "fl (1 / 5) = 3602879701896397 / 18014398509481984"
  by (rule fl_evalI [where k = "- 3"]) (simp_all add: pow2_numeral roundHalfEven_def)

lemma fl_at_2_5: "fl (5 / 2) = 5 / 2"
  by (rule fl_evalI [where k = "1"]) (simp_all add: pow2_numeral roundHalfEven_def)

lemma fl_at_s4_a: "fl (5764607523034235 / 288230376151711744) = 5764607523034235 / 288230376151711744"
  by (rule fl_evalI [where k = "- 6"]) (simp_all add: pow2_numeral roundHalfEven_def)

lemma fl_at_s4_b: "fl (28823037615171175 / 288230376151711744) = 3602879701896397 / 36028797018963968"
  by (rule fl_evalI [where k = "- 4"]) (simp_all add: pow2_numeral roundHalfEven_def)

lemma fl_at_s4_c: "fl (3602879701896397 / 36028797018963968) = 3602879701896397 / 36028797018963968"
  by (rule fl_evalI [where k = "- 4"]) (simp_all add: pow2_numeral roundHalfEven_def)

lemma fl_at_s7_a: "fl (- (5764607523034235 / 144115188075855872)) = - (5764607523034235 / 144115188075855872)"
  by (rule fl_evalI [where k = "- 5"]) (simp_all add: pow2_numeral roundHalfEven_def)

lemma fl_at_s7_b: "fl (5764607523034235 / 144115188075855872) = 5764607523034235 / 144115188075855872"
  by (rule fl_evalI [where k = "- 5"]) (simp_all add: pow2_numeral roundHalfEven_def)

lemma fl_at_s7_c: "fl (- (5764607523034235 / 72057594037927936)) = - (5764607523034235 / 72057594037927936)"
  by (rule fl_evalI [where k = "- 4"]) (simp_all add: pow2_numeral roundHalfEven_def)

lemma fl_at_s7_d: "fl (12970366926827029 / 72057594037927936) = 3242591731706757 / 18014398509481984"
  by (rule fl_evalI [where k = "- 3"]) (simp_all add: pow2_numeral roundHalfEven_def)

lemma fl_at_s7_e: "fl (48278588005411717 / 18014398509481984) = 6034823500676465 / 2251799813685248"
  by (rule fl_evalI [where k = "1"]) (simp_all add: pow2_numeral roundHalfEven_def)

lemma fl_at_s7_r: "fl (6034823500676465 / 2251799813685248) = 6034823500676465 / 2251799813685248"
  by (rule fl_evalI [where k = "1"]) (simp_all add: pow2_numeral roundHalfEven_def)

lemma fl_at_d4_e: "fl (2679641778285445 / 1125899906842624) = 2679641778285445 / 1125899906842624"
  by (rule fl_evalI [where k = "1"]) (simp_all add: pow2_numeral roundHalfEven_def)

lemma fl_at_prod_drift: "fl (736901489028497375 / 1125899906842624) = 1309 / 2"
  by (rule fl_evalI [where k = "9"]) (simp_all add: pow2_numeral roundHalfEven_def)

lemma fl_at_h0_b: "fl (5764607523034235 / 72057594037927936) = 5764607523034235 / 72057594037927936"
  by (rule fl_evalI [where k = "- 4"]) (simp_all add: pow2_numeral roundHalfEven_def)

lemma fl_at_h0_e: "fl (93674872249306317 / 36028797018963968) = 5854679515581645 / 2251799813685248"
  by (rule fl_evalI [where k = "1"]) (simp_all add: pow2_numeral roundHalfEven_def)

lemma fl_at_h0_r: "fl (5854679515581645 / 2251799813685248) = 5854679515581645 / 2251799813685248"
  by (rule fl_evalI [where k = "1"]) (simp_all add: pow2_numeral roundHalfEven_def)

lemma fl_at_h1_e: "fl (97277751951202717 / 36028797018963968) = 3039929748475085 / 1125899906842624"
  by (rule fl_evalI [where k = "1"]) (simp_all add: pow2_numeral roundHalfEven_def)

lemma fl_at_h1_r: "fl (3039929748475085 / 1125899906842624) = 3039929748475085 / 1125899906842624"
  by (rule fl_evalI [where k = "1"]) (simp_all add: pow2_numeral roundHalfEven_def)

lemma fl_at_h2_p: "fl (9119789245425255 / 562949953421312) = 1139973655678157 / 70368744177664"
  by (rule fl_evalI [where k = "4"]) (simp_all add: pow2_numeral roundHalfEven_def)

lemma fl_at_h2_b: "fl (17293822569102705 / 144115188075855872) = 1080863910568919 / 9007199254740992"
  by (rule fl_evalI [where k = "- 4"]) (simp_all add: pow2_numeral roundHalfEven_def)

lemma fl_at_h2_c: "fl (1080863910568919 / 4503599627370496) = 1080863910568919 / 4503599627370496"
  by (rule fl_evalI [where k = "- 3"]) (simp_all add: pow2_numeral roundHalfEven_def)

lemma fl_at_h2_d: "fl (- (5044031582654955 / 36028797018963968)) = - (5044031582654955 / 36028797018963968)"
  by (rule fl_evalI [where k = "- 3"]) (simp_all add: pow2_numeral roundHalfEven_def)

lemma fl_at_h2_e: "fl (92233720368547765 / 36028797018963968) = 5764607523034235 / 2251799813685248"
  by (rule fl_evalI [where k = "1"]) (simp_all add: pow2_numeral roundHalfEven_def)

lemma fl_at_h2_r: "fl (5764607523034235 / 2251799813685248) = 5764607523034235 / 2251799813685248"
  by (rule fl_evalI [where k = "1"]) (simp_all add: pow2_numeral roundHalfEven_def)

lemma fl_at_h3_p: "fl (5764607523034235 / 140737488355328) = 5764607523034235 / 140737488355328"
  by (rule fl_evalI [where k = "5"]) (simp_all add: pow2_numeral roundHalfEven_def)

lemma fl_at_h3_e: "fl (95836600070444157 / 36028797018963968) = 748723438050345 / 281474976710656"
  by (rule fl_evalI [where k = "1"]) (simp_all add: pow2_numeral roundHalfEven_def)

lemma fl_at_h3_r: "fl (748723438050345 / 281474976710656) = 748723438050345 / 281474976710656"
  by (rule fl_evalI [where k = "1"]) (simp_all add: pow2_numeral roundHalfEven_def)

lemma fl_at_h4_p: "fl (30697660960064145 / 281474976710656) = 1918603810004009 / 17592186044416"
  by (rule fl_evalI [where k = "6"]) (simp_all add: pow2_numeral roundHalfEven_def)

lemma fl_at_h4_e: "fl (90792568487789205 / 36028797018963968) = 5674535530486825 / 2251799813685248"
  by (rule fl_evalI [where k = "1"]) (simp_all add: pow2_numeral roundHalfEven_def)

lemma fl_at_h4_r: "fl (5674535530486825 / 2251799813685248) = 5674535530486825 / 2251799813685248"
  by (rule fl_evalI [where k = "1"]) (simp_all add: pow2_numeral roundHalfEven_def)

lemma fl_at_h5_p: "fl (618524372823063925 / 2251799813685248) = 4832221662680187 / 17592186044416"
  by (rule fl_evalI [where k = "8"]) (simp_all add: pow2_numeral roundHalfEven_def)

lemma fl_at_h5_e: "fl (85748536905134245 / 36028797018963968) = 2679641778285445 / 1125899906842624"
  by (rule fl_evalI [where k = "1"]) (simp_all add: pow2_numeral roundHalfEven_def)

lemma fl_at_p2_e: "fl (100880631653099117 / 36028797018963968) = 6305039478318695 / 2251799813685248"
  by (rule fl_evalI [where k = "1"]) (simp_all add: pow2_numeral roundHalfEven_def)

lemma fl_at_p2_r: "fl (6305039478318695 / 2251799813685248) = 6305039478318695 / 2251799813685248"
  by (rule fl_evalI [where k = "1"]) (simp_all add: pow2_numeral roundHalfEven_def)

lemma fl_at_p3_p: "fl (6305039478318695 / 140737488355328) = 6305039478318695 / 140737488355328"
  by (rule fl_evalI [where k = "5"]) (simp_all add: pow2_numeral roundHalfEven_def)

lemma fl_at_p3_e: "fl (104483511354995517 / 36028797018963968) = 1632554864921805 / 562949953421312"
  by (rule fl_evalI [where k = "1"]) (simp_all add: pow2_numeral roundHalfEven_def)

lemma fl_at_p3_r: "fl (1632554864921805 / 562949953421312) = 1632554864921805 / 562949953421312"
  by (rule fl_evalI [where k = "1"]) (simp_all add: pow2_numeral roundHalfEven_def)

lemma fl_at_p4_p: "fl (73464968921481225 / 562949953421312) = 4591560557592577 / 35184372088832"
  by (rule fl_evalI [where k = "7"]) (simp_all add: pow2_numeral roundHalfEven_def)

lemma fl_at_p4_e: "fl (108086391056891917 / 36028797018963968) = 6755399441055745 / 2251799813685248"
  by (rule fl_evalI [where k = "1"]) (simp_all add: pow2_numeral roundHalfEven_def)

lemma fl_at_p4_r: "fl (6755399441055745 / 2251799813685248) = 6755399441055745 / 2251799813685248"
  by (rule fl_evalI [where k = "1"]) (simp_all add: pow2_numeral roundHalfEven_def)

lemma fl_at_p5_p: "fl (884957326778302595 / 2251799813685248) = 6913729115455489 / 17592186044416"
  by (rule fl_evalI [where k = "8"]) (simp_all add: pow2_numeral roundHalfEven_def)

lemma fl_at_p5_e: "fl (111689270758788317 / 36028797018963968) = 3490289711212135 / 1125899906842624"
  by (rule fl_evalI [where k = "1"]) (simp_all add: pow2_numeral roundHalfEven_def)

lemma fl_at_p5_r: "fl (3490289711212135 / 1125899906842624) = 3490289711212135 / 1125899906842624"
  by (rule fl_evalI [where k = "1"]) (simp_all add: pow2_numeral roundHalfEven_def)

lemma fl_at_p6_p: "fl (1371683856506369055 / 1125899906842624) = 1339535016119501 / 1099511627776"
  by (rule fl_evalI [where k = "10"]) (simp_all add: pow2_numeral roundHalfEven_def)

lemma fl_at_p6_e: "fl (115292150460684717 / 36028797018963968) = 7205759403792795 / 2251799813685248"
  by (rule fl_evalI [where k = "1"]) (simp_all add: pow2_numeral roundHalfEven_def)

lemma fl_at_p6_r: "fl (7205759403792795 / 2251799813685248) = 7205759403792795 / 2251799813685248"
  by (rule fl_evalI [where k = "1"]) (simp_all add: pow2_numeral roundHalfEven_def)

lemma fl_at_p7_p: "fl (4388307476909812155 / 1125899906842624) = 8570913040839477 / 2199023255552"
  by (rule fl_evalI [where k = "11"]) (simp_all add: pow2_numeral roundHalfEven_def)

lemma fl_at_p7_e: "fl (118895030162581117 / 36028797018963968) = 928867423145165 / 281474976710656"
  by (rule fl_evalI [where k = "1"]) (simp_all add: pow2_numeral roundHalfEven_def)

lemma fl_at_p7_r: "fl (928867423145165 / 281474976710656) = 928867423145165 / 281474976710656"
  by (rule fl_evalI [where k = "1"]) (simp_all add: pow2_numeral roundHalfEven_def)

lemma fl_at_p8_p: "fl (1810362607709926585 / 140737488355328) = 7071728936366901 / 549755813888"
  by (rule fl_evalI [where k = "13"]) (simp_all add: pow2_numeral roundHalfEven_def)

lemma fl_at_p8_e: "fl (122497909864477517 / 36028797018963968) = 7656119366529845 / 2251799813685248"
  by (rule fl_evalI [where k = "1"]) (simp_all add: pow2_numeral roundHalfEven_def)

lemma fl_at_p8_r: "fl (7656119366529845 / 2251799813685248) = 7656119366529845 / 2251799813685248"
  by (rule fl_evalI [where k = "1"]) (simp_all add: pow2_numeral roundHalfEven_def)

lemma fl_at_p9_p: "fl (98480663411673396235 / 2251799813685248) = 751347834866893 / 17179869184"
  by (rule fl_evalI [where k = "15"]) (simp_all add: pow2_numeral roundHalfEven_def)

lemma fl_at_p9_e: "fl (126100789566373917 / 36028797018963968) = 3940649673949185 / 1125899906842624"
  by (rule fl_evalI [where k = "1"]) (simp_all add: pow2_numeral roundHalfEven_def)

lemma fl_at_p9_r: "fl (3940649673949185 / 1125899906842624) = 3940649673949185 / 1125899906842624"
  by (rule fl_evalI [where k = "1"]) (simp_all add: pow2_numeral roundHalfEven_def)

lemma fl_at_p10_p: "fl (86170186420246828395 / 562949953421312) = 5259410792251393 / 34359738368"
  by (rule fl_evalI [where k = "17"]) (simp_all add: pow2_numeral roundHalfEven_def)

lemma fl_at_p10_e: "fl (129703669268270317 / 36028797018963968) = 8106479329266895 / 2251799813685248"
  by (rule fl_evalI [where k = "1"]) (simp_all add: pow2_numeral roundHalfEven_def)

lemma fl_at_p10_r: "fl (8106479329266895 / 2251799813685248) = 8106479329266895 / 2251799813685248"
  by (rule fl_evalI [where k = "1"]) (simp_all add: pow2_numeral roundHalfEven_def)

lemma fl_at_p11_p: "fl (1240850684451554350755 / 2251799813685248) = 2366734856513127 / 4294967296"
  by (rule fl_evalI [where k = "19"]) (simp_all add: pow2_numeral roundHalfEven_def)

lemma fl_at_p11_e: "fl (133306548970166717 / 36028797018963968) = 2082914827658855 / 562949953421312"
  by (rule fl_evalI [where k = "1"]) (simp_all add: pow2_numeral roundHalfEven_def)

lemma fl_at_p11_r: "fl (2082914827658855 / 562949953421312) = 2082914827658855 / 562949953421312"
  by (rule fl_evalI [where k = "1"]) (simp_all add: pow2_numeral roundHalfEven_def)

lemma fl_at_p12_p: "fl (143473256243969591255 / 70368744177664) = 2189228153136743 / 1073741824"
  by (rule fl_evalI [where k = "20"]) (simp_all add: pow2_numeral roundHalfEven_def)

lemma fl_at_p12_e: "fl (136909428672063117 / 36028797018963968) = 8556839292003945 / 2251799813685248"
  by (rule fl_evalI [where k = "1"]) (simp_all add: pow2_numeral roundHalfEven_def)

lemma fl_at_p12_r: "fl (8556839292003945 / 2251799813685248) = 8556839292003945 / 2251799813685248"
  by (rule fl_evalI [where k = "1"]) (simp_all add: pow2_numeral roundHalfEven_def)

lemma fl_at_p13_p: "fl (8723175691001209686855 / 1125899906842624) = 2079767153501799 / 268435456"
  by (rule fl_evalI [where k = "22"]) (simp_all add: pow2_numeral roundHalfEven_def)

lemma fl_at_p13_e: "fl (140512308373959517 / 36028797018963968) = 4391009636686235 / 1125899906842624"
  by (rule fl_evalI [where k = "1"]) (simp_all add: pow2_numeral roundHalfEven_def)

lemma fl_at_p13_r: "fl (4391009636686235 / 1125899906842624) = 4391009636686235 / 1125899906842624"
  by (rule fl_evalI [where k = "1"]) (simp_all add: pow2_numeral roundHalfEven_def)

lemma fl_at_p14_p: "fl (4252547929812607951745 / 140737488355328) = 8111091479897705 / 268435456"
  by (rule fl_evalI [where k = "24"]) (simp_all add: pow2_numeral roundHalfEven_def)

lemma fl_at_p14_e: "fl (144115188075855917 / 36028797018963968) = 4503599627370497 / 1125899906842624"
  by (rule fl_evalI [where k = "2"]) (simp_all add: pow2_numeral roundHalfEven_def)

lemma fl_at_p14_r: "fl (4503599627370497 / 1125899906842624) = 4503599627370497 / 1125899906842624"
  by (rule fl_evalI [where k = "2"]) (simp_all add: pow2_numeral roundHalfEven_def)

lemma fl_at_p15_p: "fl (68040765976281795168245 / 562949953421312) = 4055545686261761 / 33554432"
  by (rule fl_evalI [where k = "26"]) (simp_all add: pow2_numeral roundHalfEven_def)

lemma fl_at_x1_e: "fl (51521179737118477 / 18014398509481984) = 3220073733569905 / 1125899906842624"
  by (rule fl_evalI [where k = "1"]) (simp_all add: pow2_numeral roundHalfEven_def)

lemma fl_at_x1_r: "fl (3220073733569905 / 1125899906842624) = 3220073733569905 / 1125899906842624"
  by (rule fl_evalI [where k = "1"]) (simp_all add: pow2_numeral roundHalfEven_def)

lemma fl_at_x2_p: "fl (9660221200709715 / 562949953421312) = 2415055300177429 / 140737488355328"
  by (rule fl_evalI [where k = "4"]) (simp_all add: pow2_numeral roundHalfEven_def)

lemma fl_at_x2_e: "fl (54763771468825237 / 18014398509481984) = 6845471433603155 / 2251799813685248"
  by (rule fl_evalI [where k = "1"]) (simp_all add: pow2_numeral roundHalfEven_def)

lemma fl_at_x2_r: "fl (6845471433603155 / 2251799813685248) = 6845471433603155 / 2251799813685248"
  by (rule fl_evalI [where k = "1"]) (simp_all add: pow2_numeral roundHalfEven_def)

lemma fl_at_x3_p: "fl (116373014371253635 / 2251799813685248) = 909164174775419 / 17592186044416"
  by (rule fl_evalI [where k = "5"]) (simp_all add: pow2_numeral roundHalfEven_def)

lemma fl_at_x3_e: "fl (58006363200531997 / 18014398509481984) = 1812698850016625 / 562949953421312"
  by (rule fl_evalI [where k = "1"]) (simp_all add: pow2_numeral roundHalfEven_def)

lemma fl_at_x3_r: "fl (1812698850016625 / 562949953421312) = 1812698850016625 / 562949953421312"
  by (rule fl_evalI [where k = "1"]) (simp_all add: pow2_numeral roundHalfEven_def)

lemma fl_at_x4_p: "fl (23565085050216125 / 140737488355328) = 5891271262554031 / 35184372088832"
  by (rule fl_evalI [where k = "7"]) (simp_all add: pow2_numeral roundHalfEven_def)

lemma fl_at_x4_e: "fl (61248954932238757 / 18014398509481984) = 7656119366529845 / 2251799813685248"
  by (rule fl_evalI [where k = "1"]) (simp_all add: pow2_numeral roundHalfEven_def)

lemma fl_at_x5_p: "fl (1278571934210484115 / 2251799813685248) = 624302702251213 / 1099511627776"
  by (rule fl_evalI [where k = "9"]) (simp_all add: pow2_numeral roundHalfEven_def)

lemma fl_at_x5_e: "fl (64491546663945517 / 18014398509481984) = 4030721666496595 / 1125899906842624"
  by (rule fl_evalI [where k = "1"]) (simp_all add: pow2_numeral roundHalfEven_def)

lemma fl_at_x5_r: "fl (4030721666496595 / 1125899906842624) = 4030721666496595 / 1125899906842624"
  by (rule fl_evalI [where k = "1"]) (simp_all add: pow2_numeral roundHalfEven_def)

lemma fl_at_x6_p: "fl (286181238321258245 / 140737488355328) = 1117895462192415 / 549755813888"
  by (rule fl_evalI [where k = "10"]) (simp_all add: pow2_numeral roundHalfEven_def)

lemma fl_at_x6_e: "fl (67734138395652277 / 18014398509481984) = 8466767299456535 / 2251799813685248"
  by (rule fl_evalI [where k = "1"]) (simp_all add: pow2_numeral roundHalfEven_def)

lemma fl_at_x6_r: "fl (8466767299456535 / 2251799813685248) = 8466767299456535 / 2251799813685248"
  by (rule fl_evalI [where k = "1"]) (simp_all add: pow2_numeral roundHalfEven_def)

lemma fl_at_x7_p: "fl (17212937919795135655 / 2251799813685248) = 8404754843649969 / 1099511627776"
  by (rule fl_evalI [where k = "12"]) (simp_all add: pow2_numeral roundHalfEven_def)

lemma fl_at_x7_e: "fl (70976730127359037 / 18014398509481984) = 1109011408239985 / 281474976710656"
  by (rule fl_evalI [where k = "1"]) (simp_all add: pow2_numeral roundHalfEven_def)

lemma fl_at_x7_r: "fl (1109011408239985 / 281474976710656) = 1109011408239985 / 281474976710656"
  by (rule fl_evalI [where k = "1"]) (simp_all add: pow2_numeral roundHalfEven_def)

lemma fl_at_x8_p: "fl (2119320801146611335 / 70368744177664) = 8278596879478951 / 274877906944"
  by (rule fl_evalI [where k = "14"]) (simp_all add: pow2_numeral roundHalfEven_def)

lemma fl_at_x8_e: "fl (74219321859065797 / 18014398509481984) = 1159676904047903 / 281474976710656"
  by (rule fl_evalI [where k = "2"]) (simp_all add: pow2_numeral roundHalfEven_def)

lemma fl_at_x8_r: "fl (1159676904047903 / 281474976710656) = 1159676904047903 / 281474976710656"
  by (rule fl_evalI [where k = "2"]) (simp_all add: pow2_numeral roundHalfEven_def)

lemma fl_at_x9_p: "fl (34925989319210694651 / 281474976710656) = 8526852861135423 / 68719476736"
  by (rule fl_evalI [where k = "16"]) (simp_all add: pow2_numeral roundHalfEven_def)

lemma fl_at_x9_e: "fl (77461913590772549 / 18014398509481984) = 1210342399855821 / 281474976710656"
  by (rule fl_evalI [where k = "2"]) (simp_all add: pow2_numeral roundHalfEven_def)

lemma fl_at_x9_r: "fl (1210342399855821 / 281474976710656) = 1210342399855821 / 281474976710656"
  by (rule fl_evalI [where k = "2"]) (simp_all add: pow2_numeral roundHalfEven_def)

lemma fl_at_x10_p: "fl (75090852829454990661 / 140737488355328) = 1145795483847885 / 2147483648"
  by (rule fl_evalI [where k = "19"]) (simp_all add: pow2_numeral roundHalfEven_def)

lemma fl_at_x10_e: "fl (80704505322479301 / 18014398509481984) = 1261007895663739 / 281474976710656"
  by (rule fl_evalI [where k = "2"]) (simp_all add: pow2_numeral roundHalfEven_def)

lemma fl_at_x10_r: "fl (1261007895663739 / 281474976710656) = 1261007895663739 / 281474976710656"
  by (rule fl_evalI [where k = "2"]) (simp_all add: pow2_numeral roundHalfEven_def)

lemma fl_at_x11_p: "fl (672814545755074934667 / 281474976710656) = 2566583807964611 / 1073741824"
  by (rule fl_evalI [where k = "21"]) (simp_all add: pow2_numeral roundHalfEven_def)

lemma fl_at_x11_e: "fl (83947097054186053 / 18014398509481984) = 1311673391471657 / 281474976710656"
  by (rule fl_evalI [where k = "2"]) (simp_all add: pow2_numeral roundHalfEven_def)

lemma fl_at_x11_r: "fl (1311673391471657 / 281474976710656) = 1311673391471657 / 281474976710656"
  by (rule fl_evalI [where k = "2"]) (simp_all add: pow2_numeral roundHalfEven_def)

lemma fl_at_x12_p: "fl (3135315206082356745269 / 281474976710656) = 5980139171757425 / 536870912"
  by (rule fl_evalI [where k = "23"]) (simp_all add: pow2_numeral roundHalfEven_def)

lemma fl_at_x12_e: "fl (87189688785892805 / 18014398509481984) = 1362338887279575 / 281474976710656"
  by (rule fl_evalI [where k = "2"]) (simp_all add: pow2_numeral roundHalfEven_def)

lemma fl_at_x12_r: "fl (1362338887279575 / 281474976710656) = 1362338887279575 / 281474976710656"
  by (rule fl_evalI [where k = "2"]) (simp_all add: pow2_numeral roundHalfEven_def)

lemma fl_at_x13_p: "fl (15174925297724050537275 / 281474976710656) = 7235968254911447 / 134217728"
  by (rule fl_evalI [where k = "25"]) (simp_all add: pow2_numeral roundHalfEven_def)

lemma fl_at_x13_e: "fl (90432280517599557 / 18014398509481984) = 1413004383087493 / 281474976710656"
  by (rule fl_evalI [where k = "2"]) (simp_all add: pow2_numeral roundHalfEven_def)

lemma fl_at_x13_r: "fl (1413004383087493 / 281474976710656) = 1413004383087493 / 281474976710656"
  by (rule fl_evalI [where k = "2"]) (simp_all add: pow2_numeral roundHalfEven_def)

lemma fl_at_x14_p: "fl (76178125446736132052345 / 281474976710656) = 1135142526726963 / 4194304"
  by (rule fl_evalI [where k = "28"]) (simp_all add: pow2_numeral roundHalfEven_def)

lemma fl_at_w3: "fl (10808639105689191 / 4503599627370496) = 1351079888211149 / 562949953421312"
  by (rule fl_evalI [where k = "1"]) (simp_all add: pow2_numeral roundHalfEven_def)

lemma fl_at_w5: "fl (18014398509481985 / 18014398509481984) = 1"
  by (rule fl_evalI [where k = "0"]) (simp_all add: pow2_numeral roundHalfEven_def)

lemma fl_at_m7_q: "fl (7 / 5) = 3152519739159347 / 2251799813685248"
  by (rule fl_evalI [where k = "0"]) (simp_all add: pow2_numeral roundHalfEven_def)

lemma fl_at_m7_p: "fl (78812993478983675 / 562949953421312) = 140"
  by (rule fl_evalI [where k = "7"]) (simp_all add: pow2_numeral roundHalfEven_def)

lemma fl_at_m3_q: "fl (- (3 / 5)) = - (5404319552844595 / 9007199254740992)"
  by (rule fl_evalI [where k = "- 1"]) (simp_all add: pow2_numeral roundHalfEven_def)

lemma fl_at_m3_p: "fl (- (135107988821114875 / 2251799813685248)) = - 60"
  by (rule fl_evalI [where k = "5"]) (simp_all add: pow2_numeral roundHalfEven_def)

lemma fl_at_m23_q: "fl (23 / 40) = 2589569785738035 / 4503599627370496"
  by (rule fl_evalI [where k = "- 1"]) (simp_all add: pow2_numeral roundHalfEven_def)

lemma fl_at_m23_p: "fl (64739244643450875 / 1125899906842624) = 8092405580431359 / 140737488355328"
  by (rule fl_evalI [where k = "5"]) (simp_all add: pow2_numeral roundHalfEven_def)

lemmas fl_table =
  fl_at_0_1 fl_at_0_08 fl_at_0_02 fl_at_1_3 fl_at_2_38 fl_at_2_68
  fl_at_0_8 fl_at_0_2 fl_at_2_5 fl_at_s4_a fl_at_s4_b fl_at_s4_c
  fl_at_s7_a fl_at_s7_b fl_at_s7_c fl_at_s7_d fl_at_s7_e fl_at_s7_r
  fl_at_d4_e fl_at_prod_drift fl_at_h0_b fl_at_h0_e fl_at_h0_r fl_at_h1_e
  fl_at_h1_r fl_at_h2_p fl_at_h2_b fl_at_h2_c fl_at_h2_d fl_at_h2_e
  fl_at_h2_r fl_at_h3_p fl_at_h3_e fl_at_h3_r fl_at_h4_p fl_at_h4_e
  fl_at_h4_r fl_at_h5_p fl_at_h5_e fl_at_p2_e fl_at_p2_r fl_at_p3_p
  fl_at_p3_e fl_at_p3_r fl_at_p4_p fl_at_p4_e fl_at_p4_r fl_at_p5_p
  fl_at_p5_e fl_at_p5_r fl_at_p6_p fl_at_p6_e fl_at_p6_r fl_at_p7_p
  fl_at_p7_e fl_at_p7_r fl_at_p8_p fl_at_p8_e fl_at_p8_r fl_at_p9_p
  fl_at_p9_e fl_at_p9_r fl_at_p10_p fl_at_p10_e fl_at_p10_r fl_at_p11_p
  fl_at_p11_e fl_at_p11_r fl_at_p12_p fl_at_p12_e fl_at_p12_r fl_at_p13_p
  fl_at_p13_e fl_at_p13_r fl_at_p14_p fl_at_p14_e fl_at_p14_r fl_at_p15_p
  fl_at_x1_e fl_at_x1_r fl_at_x2_p fl_at_x2_e fl_at_x2_r fl_at_x3_p
  fl_at_x3_e fl_at_x3_r fl_at_x4_p fl_at_x4_e fl_at_x5_p fl_at_x5_e
  fl_at_x5_r fl_at_x6_p fl_at_x6_e fl_at_x6_r fl_at_x7_p fl_at_x7_e
  fl_at_x7_r fl_at_x8_p fl_at_x8_e fl_at_x8_r fl_at_x9_p fl_at_x9_e
  fl_at_x9_r fl_at_x10_p fl_at_x10_e fl_at_x10_r fl_at_x11_p fl_at_x11_e
  fl_at_x11_r fl_at_x12_p fl_at_x12_e fl_at_x12_r fl_at_x13_p fl_at_x13_e
  fl_at_x13_r fl_at_x14_p fl_at_w3 fl_at_w5 fl_at_m7_q fl_at_m7_p
  fl_at_m3_q fl_at_m3_p fl_at_m23_q fl_at_m23_p

section \<open>Properties of the review step\<close>

lemma minimum_le_literal: "1.3 \<le> fl 1.3"
  by (simp add: fl_table)

lemma newEaseFactor_ge: "1.3 \<le> newEaseFactor e quality"
  using minimum_le_literal by (simp add: newEaseFactor_def Let_def)

lemma easeFactor_calculateNextReview:
  "calculateNextReview tz now crd quality = Inr r \<Longrightarrow> 1.3 \<le> easeFactor r"
  using newEaseFactor_ge [of "easeFactor crd" quality]
  by (auto simp: calculateNextReview_def Let_def split: option.splits)

lemma easeFactor_reviewAll:
  "reviewAll tz crd events = Inr r \<Longrightarrow> 1.3 \<le> easeFactor crd \<Longrightarrow> 1.3 \<le> easeFactor r"
proof (induction events arbitrary: crd)
  case Nil
  then show ?case by simp
next
  case (Cons e events)
  obtain t q where e: "e = (t, q)" by (cases e)
  from Cons.prems(1) obtain crd' where
    step: "calculateNextReview tz t crd q = Inr crd'" and rest: "reviewAll tz crd' events = Inr r"
    by (auto simp: e split: sum.splits)
  from step have "1.3 \<le> easeFactor crd'" by (rule easeFactor_calculateNextReview)
  with rest show ?case by (rule Cons.IH)
qed

lemma calculateNextReview_failed_grade:
  "quality < 3 \<Longrightarrow> nextDate tz now 1 = Some d \<Longrightarrow>
     \<exists>r. calculateNextReview tz now crd quality = Inr r"
  by (simp add: calculateNextReview_def newInterval_def Let_def)

lemma reviewAll_failed_grades:
  "quality < 3 \<Longrightarrow> nextDate tz now 1 = Some d \<Longrightarrow>
     \<exists>r. reviewAll tz crd (replicate n (now, quality)) = Inr r"
proof (induction n arbitrary: crd)
  case 0
  then show ?case by simp
next
  case (Suc n)
  from calculateNextReview_failed_grade [OF Suc.prems]
  obtain crd' where "calculateNextReview tz now crd quality = Inr crd'" by blast
  with Suc.IH [OF Suc.prems, of crd'] show ?case by simp
qed

lemma newEaseFactor_examples:
  "newEaseFactor (5 / 2) 4 = 5 / 2"
  "newEaseFactor (5 / 2) 7 = fl 2.68"
  "newEaseFactor (fl (119 / 50)) 4 = fl (119 / 50)"
  by (simp_all add: newEaseFactor_def Let_def fl_table fl_ints)

lemma newInterval_examples:
  "newInterval 2 6 (5 / 2) 4 = 15"
  "newInterval 2 6 (5 / 2) 7 = 15"
  "newInterval 6 275 (fl (119 / 50)) 4 = 655"
  "newInterval 2 100000000 (5 / 2) 4 = 250000000"
  "newInterval 2 100000000 (5 / 2) 7 = 250000000"
  by (simp_all add: newInterval_def mathRound_def fl_table fl_ints)

lemma newRepetitions_examples:
  "newRepetitions 2 4 = 3" "newRepetitions 2 7 = 3" "newRepetitions 6 4 = 7"
  by (simp_all add: newRepetitions_def fl_ints)

lemma nextDate_utcZone:
  "nextDate utcZone now n
     = (if \<bar>n\<bar> < 2 ^ 1024 \<and> \<bar>now + n * 86400000\<bar> \<le> 8640000000000000
        then Some (now + n * 86400000) else None)"
  by (simp add: nextDate_def utcZone_def msPerDay_def maxTime_def Let_def)

text \<open>The drifting card is what six reviews make of a new card.\<close>

lemma reviewAll_reaches_driftCard:
  "reviewAll utcZone newCard [(0, 5), (0, 5), (0, 3), (0, 5), (0, 3), (0, 3)]
     = Inr (driftCard\<lparr> lastReviewDate := Some 0, nextReviewDate := 275 * msPerDay \<rparr>)"
  by (simp add: calculateNextReview_def newInterval_def newRepetitions_def newEaseFactor_def
      Let_def mathRound_def nextDate_utcZone newCard_def driftCard_def sampleCard_def
      msPerDay_def fl_table fl_ints)

text \<open>
  The sixteenth consecutive review of a new card graded 5, and the fifteenth graded 7,
  throw: the next interval is more than a hundred million days.
\<close>

lemma reviewAll_perfect_grades_throw:
  "reviewAll utcZone newCard
       [(0, 5), (0, 5), (0, 5), (0, 5), (0, 5), (0, 5), (0, 5), (0, 5), (0, 5), (0, 5),
        (0, 5), (0, 5), (0, 5), (0, 5), (0, 5), (0, 5)]
     = Inl RangeError"
  by (simp add: calculateNextReview_def newInterval_def newRepetitions_def newEaseFactor_def
      Let_def mathRound_def nextDate_utcZone newCard_def sampleCard_def fl_table fl_ints)

lemma reviewAll_above_range_grades_throw:
  "reviewAll utcZone newCard
       [(0, 7), (0, 7), (0, 7), (0, 7), (0, 7), (0, 7), (0, 7), (0, 7), (0, 7), (0, 7),
        (0, 7), (0, 7), (0, 7), (0, 7), (0, 7)]
     = Inl RangeError"
  by (simp add: calculateNextReview_def newInterval_def newRepetitions_def newEaseFactor_def
      Let_def mathRound_def nextDate_utcZone newCard_def sampleCard_def fl_table fl_ints)




text \<open>
  C2. Starting from a card whose ease factor is at least 1.3, after every step of every
  finite review history with grades in 0..5 the ease factor is at least 1.3, on every
  card that the history returns; so it is after a thousand consecutive reviews graded 0,
  which do return a card whenever the day after the clock reading is a valid date.
\<close>

theorem easeFactor_never_below_minimum:
  assumes "1.3 \<le> easeFactor crd"
    and "\<forall>(t, q) \<in> set events. 0 \<le> q \<and> q \<le> 5"
  shows "(\<forall>n \<le> length events. \<forall>r. reviewAll tz crd (take n events) = Inr r
            \<longrightarrow> 1.3 \<le> easeFactor r)
       \<and> (\<forall>r. reviewAll tz crd (replicate 1000 (now, 0)) = Inr r \<longrightarrow> 1.3 \<le> easeFactor r)
       \<and> (nextDate tz now 1 \<noteq> None
            \<longrightarrow> (\<exists>r. reviewAll tz crd (replicate 1000 (now, 0)) = Inr r \<and> 1.3 \<le> easeFactor r))"
proof -
  have inv: "1.3 \<le> easeFactor r" if "reviewAll tz crd es = Inr r" for es r
    using that assms(1) by (rule easeFactor_reviewAll)
  have "\<exists>r. reviewAll tz crd (replicate 1000 (now, 0)) = Inr r" if "nextDate tz now 1 \<noteq> None"
  proof -
    from that obtain d where "nextDate tz now 1 = Some d" by blast
    with reviewAll_failed_grades [of 0 tz now d crd 1000] show ?thesis by simp
  qed
  with inv show ?thesis by blast
qed

theorem easeFactor_never_below_minimum_witness:
  "1.3 \<le> easeFactor sampleCard
   \<and> list_all (\<lambda>(t, q). 0 \<le> q \<and> q \<le> 5) [(10 :: int, 0 :: real), (20, 5), (30, 2)]
   \<and> nextDate utcZone 7 1 \<noteq> None
   \<and> (\<exists>r. reviewAll utcZone sampleCard (replicate 1000 (7, 0)) = Inr r \<and> 1.3 \<le> easeFactor r)"
proof -
  have h1: "1.3 \<le> easeFactor sampleCard" by (simp add: sampleCard_def)
  have h2: "\<forall>(t, q) \<in> set [(10 :: int, 0 :: real), (20, 5), (30, 2)]. 0 \<le> q \<and> q \<le> 5" by simp
  have h3: "nextDate utcZone 7 1 \<noteq> None" by (simp add: nextDate_utcZone)
  from easeFactor_never_below_minimum [OF h1 h2, of utcZone 7] h3
  have "\<exists>r. reviewAll utcZone sampleCard (replicate 1000 (7, 0)) = Inr r \<and> 1.3 \<le> easeFactor r"
    by blast
  moreover have "list_all (\<lambda>(t, q). 0 \<le> q \<and> q \<le> 5) [(10 :: int, 0 :: real), (20, 5), (30, 2)]"
    by simp
  ultimately show ?thesis using h1 h3 by blast
qed

text \<open>
  C3 (as amended). A grade outside 0..5 is not validated and raises no \<open>InvalidArgument\<close>
  error: the review step treats it by the rules it applies to every grade. A grade below
  0 is handled as a failed review (repetitions 0, interval 1, difficulty hard), a grade
  above 5 as a successful one (one more repetition, the interval of a successful review,
  difficulty easy). As for every grade, the card is returned when the date of the next
  review is valid, and \<open>RangeError\<close> is thrown when it is not.
\<close>

theorem calculateNextReview_out_of_range_not_validated:
  assumes "quality < 0 \<or> 5 < quality"
  shows "calculateNextReview tz now crd quality \<noteq> Inl InvalidArgument
       \<and> (quality < 0 \<longrightarrow>
            (case nextDate tz now 1 of
               None \<Rightarrow> calculateNextReview tz now crd quality = Inl RangeError
             | Some d \<Rightarrow>
                 (\<exists>r. calculateNextReview tz now crd quality = Inr r
                    \<and> repetitions r = 0 \<and> interval r = 1 \<and> difficulty r = Hard
                    \<and> nextReviewDate r = d)))
       \<and> (5 < quality \<longrightarrow>
            (let n = (if repetitions crd = 0 then 1
                      else if repetitions crd = 1 then 6
                      else mathRound (fl (real_of_int (interval crd) * easeFactor crd)))
             in case nextDate tz now n of
                  None \<Rightarrow> calculateNextReview tz now crd quality = Inl RangeError
                | Some d \<Rightarrow>
                    (\<exists>r. calculateNextReview tz now crd quality = Inr r
                       \<and> repetitions r = \<lfloor>fl (real_of_int (repetitions crd) + 1)\<rfloor>
                       \<and> interval r = n \<and> difficulty r = Easy \<and> nextReviewDate r = d)))"
  by (simp add: calculateNextReview_def newInterval_def newRepetitions_def Let_def
      split: option.splits)

theorem calculateNextReview_out_of_range_not_validated_witness:
  "((7 :: real) < 0 \<or> 5 < (7 :: real))
   \<and> (\<exists>r. calculateNextReview utcZone 1000 sampleCard 7 = Inr r
          \<and> repetitions r = 3 \<and> interval r = 15 \<and> difficulty r = Easy
          \<and> nextReviewDate r = 1296001000)
   \<and> calculateNextReview utcZone 1000 farCard 7 = Inl RangeError"
proof -
  have h: "(7 :: real) < 0 \<or> 5 < (7 :: real)" by simp
  have n: "mathRound (fl (real_of_int (interval sampleCard) * easeFactor sampleCard)) = 15"
    by (simp add: sampleCard_def mathRound_def fl_ints)
  have nf: "mathRound (fl (real_of_int (interval farCard) * easeFactor farCard)) = 250000000"
    by (simp add: farCard_def sampleCard_def fl_ints mathRound_def)
  have reps: "repetitions sampleCard = 2" "repetitions farCard = 2"
    by (simp_all add: sampleCard_def farCard_def)
  have r3: "\<lfloor>fl (real_of_int 2 + 1)\<rfloor> = 3" by (simp add: fl_ints)
  have d: "nextDate utcZone 1000 15 = Some 1296001000"
    "nextDate utcZone 1000 250000000 = None"
    by (simp_all add: nextDate_utcZone)
  from calculateNextReview_out_of_range_not_validated [OF h, of utcZone 1000 sampleCard]
  have a: "\<exists>r. calculateNextReview utcZone 1000 sampleCard 7 = Inr r
          \<and> repetitions r = 3 \<and> interval r = 15 \<and> difficulty r = Easy
          \<and> nextReviewDate r = 1296001000"
    using r3 by (simp add: n reps d Let_def)
  from calculateNextReview_out_of_range_not_validated [OF h, of utcZone 1000 farCard]
  have b: "calculateNextReview utcZone 1000 farCard 7 = Inl RangeError"
    by (simp add: nf reps d Let_def)
  from h a b show ?thesis by blast
qed

theorem calculateNextReview_out_of_range_counterexample:
  "calculateNextReview utcZone 1000 sampleCard 7 \<noteq> Inl InvalidArgument
   \<and> calculateNextReview utcZone 1000 sampleCard 7
       = Inr (sampleCard\<lparr> easeFactor := fl 2.68, interval := 15, repetitions := 3,
                           lastReviewDate := Some 1000, nextReviewDate := 1296001000,
                           difficulty := Easy \<rparr>)"
  by (simp add: calculateNextReview_def sampleCard_def newInterval_examples
      newRepetitions_examples newEaseFactor_examples nextDate_utcZone)

section \<open>Properties of the adaptive feedback\<close>

text \<open>
  C5. For every correctness flag, response time (10000 ms when omitted) and streak
  (0 when omitted) the feedback has exactly the level and difficulty adjustment of the
  ordered decision table. An incorrect answer after 3000 ms at streak 0 is classified
  struggling with adjustment hard.
\<close>

theorem getAdaptiveFeedback_table:
  "(let fb = getAdaptiveFeedback crd isCorrect responseTimeMs streak in
      (level fb, adjustedDifficulty fb)
        = feedbackTable isCorrect (withDefault 10000 responseTimeMs) (withDefault 0 streak))
   \<and> (let fb = getAdaptiveFeedback crd False (Some 3000) (Some 0) in
        level fb = struggling \<and> adjustedDifficulty fb = Hard)
   \<and> (let fb = getAdaptiveFeedback crd isCorrect (Some t) (Some s) in
        (level fb, adjustedDifficulty fb) =
          (if isCorrect \<and> t < 8000 \<and> s \<ge> 2 then (excellent, Easy)
           else if isCorrect \<and> t < 8000 then (good, Easy)
           else if isCorrect then (good, Medium)
           else if s = 0 then (struggling, Hard)
           else (needs_review, Medium)))"
  by (simp add: getAdaptiveFeedback_def feedbackTable_def withDefault_def Let_def
      split: option.splits)

theorem getAdaptiveFeedback_table_witness:
  "level (getAdaptiveFeedback sampleCard False (Some 3000) (Some 0)) = struggling
   \<and> adjustedDifficulty (getAdaptiveFeedback sampleCard False (Some 3000) (Some 0)) = Hard
   \<and> level (getAdaptiveFeedback sampleCard True None None) = good
   \<and> adjustedDifficulty (getAdaptiveFeedback sampleCard True None None) = Medium"
  using getAdaptiveFeedback_table [of sampleCard False "Some 3000" "Some 0" 0 0]
        getAdaptiveFeedback_table [of sampleCard True None None 0 0]
  by (simp add: Let_def feedbackTable_def withDefault_def)

section \<open>Properties of the study order\<close>

lemma studyComparator_le_iff: "studyComparator a b \<le> 0 \<longleftrightarrow> studyKey a \<le> studyKey b"
  by (auto simp: studyComparator_def studyKey_def Let_def)

lemma insertSorted_studyComparator:
  "insertSorted studyComparator x ys = insort_key studyKey x ys"
  by (induction ys) (simp_all add: studyComparator_le_iff)

lemma sortCardsForStudy_sort_key: "sortCardsForStudy cs = sort_key studyKey cs"
proof -
  have "insertSorted studyComparator = insort_key studyKey"
    by (intro ext) (rule insertSorted_studyComparator)
  then show ?thesis
    by (simp add: sortCardsForStudy_def array_sort_def sort_key_def)
qed

lemma diffMap_severity:
  "diffMap x < diffMap y \<longleftrightarrow> difficultyToNumber y < difficultyToNumber x"
  "diffMap x = diffMap y \<longleftrightarrow> x = y"
  by (cases x; cases y; simp add: diffMap_def difficultyToNumber_def)+

lemma studyKey_le_iff:
  "studyKey a \<le> studyKey b \<longleftrightarrow>
     nextReviewDate a < nextReviewDate b
     \<or> (nextReviewDate a = nextReviewDate b
        \<and> (difficultyToNumber (difficulty b) < difficultyToNumber (difficulty a)
           \<or> (difficulty a = difficulty b \<and> easeFactor a \<le> easeFactor b)))"
  using diffMap_severity [of "difficulty a" "difficulty b"]
  by (auto simp: studyKey_def)

lemma studyKey_eq_iff:
  "studyKey c = (d, diffMap f, e) \<longleftrightarrow>
     nextReviewDate c = d \<and> difficulty c = f \<and> easeFactor c = e"
  by (auto simp: studyKey_def diffMap_severity)

text \<open>
  C4. The study order holds the same cards, ordered by next review time ascending, then
  by severity of the difficulty descending (hard before medium before easy), then by ease
  factor ascending; cards equal on all three keys keep their original relative order.
\<close>

theorem sortCardsForStudy_stable_order:
  "mset (sortCardsForStudy cs) = mset cs
   \<and> sorted_wrt (\<lambda>a b.
         nextReviewDate a < nextReviewDate b
         \<or> (nextReviewDate a = nextReviewDate b
            \<and> (difficultyToNumber (difficulty b) < difficultyToNumber (difficulty a)
               \<or> (difficulty a = difficulty b \<and> easeFactor a \<le> easeFactor b))))
       (sortCardsForStudy cs)
   \<and> filter (\<lambda>c. nextReviewDate c = d \<and> difficulty c = f \<and> easeFactor c = e)
         (sortCardsForStudy cs)
     = filter (\<lambda>c. nextReviewDate c = d \<and> difficulty c = f \<and> easeFactor c = e) cs"
proof (intro conjI)
  show "mset (sortCardsForStudy cs) = mset cs"
    by (simp add: sortCardsForStudy_sort_key)
next
  have "sorted (map studyKey (sort_key studyKey cs))"
    by (rule sorted_sort_key)
  then have "sorted_wrt (\<lambda>a b. studyKey a \<le> studyKey b) (sortCardsForStudy cs)"
    by (simp add: sorted_map sortCardsForStudy_sort_key)
  then show "sorted_wrt (\<lambda>a b.
         nextReviewDate a < nextReviewDate b
         \<or> (nextReviewDate a = nextReviewDate b
            \<and> (difficultyToNumber (difficulty b) < difficultyToNumber (difficulty a)
               \<or> (difficulty a = difficulty b \<and> easeFactor a \<le> easeFactor b))))
       (sortCardsForStudy cs)"
    by (simp add: studyKey_le_iff)
next
  have "filter (\<lambda>c. studyKey c = (d, diffMap f, e)) (sort_key studyKey cs)
      = filter (\<lambda>c. studyKey c = (d, diffMap f, e)) cs"
    by (rule sort_key_stable)
  then show "filter (\<lambda>c. nextReviewDate c = d \<and> difficulty c = f \<and> easeFactor c = e)
         (sortCardsForStudy cs)
     = filter (\<lambda>c. nextReviewDate c = d \<and> difficulty c = f \<and> easeFactor c = e) cs"
    by (simp add: studyKey_eq_iff sortCardsForStudy_sort_key)
qed

lemma sortCardsForStudy_example:
  "sortCardsForStudy [sampleCard, twinCard, hardCard, earlyCard]
     = [earlyCard, hardCard, sampleCard, twinCard]"
  by (simp add: sortCardsForStudy_def array_sort_def studyComparator_def diffMap_def
      sampleCard_def twinCard_def hardCard_def earlyCard_def)

theorem sortCardsForStudy_stable_order_witness:
  "sortCardsForStudy [sampleCard, twinCard, hardCard, earlyCard]
     = [earlyCard, hardCard, sampleCard, twinCard]
   \<and> filter (\<lambda>c. nextReviewDate c = 0 \<and> difficulty c = Medium \<and> easeFactor c = 2.5)
         (sortCardsForStudy [sampleCard, twinCard, hardCard, earlyCard])
     = [sampleCard, twinCard]"
  using sortCardsForStudy_stable_order
          [of "[sampleCard, twinCard, hardCard, earlyCard]" 0 Medium "2.5"]
        sortCardsForStudy_example
  by (simp add: sampleCard_def twinCard_def hardCard_def earlyCard_def)

section \<open>Properties of the deck composers\<close>

lemma fold_max_ge: "x \<in> set xs \<Longrightarrow> x \<le> fold max xs (a::nat)"
proof -
  assume "x \<in> set xs"
  then have "x \<le> Max (set (a # xs))" by (intro Max_ge) auto
  then show ?thesis by (simp only: Max.set_eq_fold)
qed

lemma roundRobin_rounds:
  "roundRobin groups = concat (map (\<lambda>i. roundAt i groups) [0..<fold max (map length groups) 0])"
  by (simp add: roundRobin_def roundAt_def Let_def)

lemma mset_roundAt:
  "mset (roundAt i groups) = (\<Sum>g\<leftarrow>groups. if i < length g then {#g ! i#} else {#})"
  by (induction groups) (simp_all add: roundAt_def)

lemma mset_take_Suc:
  "mset (take (Suc i) g) = mset (take i g) + (if i < length g then {#g ! i#} else {#})"
  by (simp add: take_Suc_conv_app_nth)

lemma mset_rounds:
  "mset (concat (map (\<lambda>i. roundAt i groups) [0..<m])) = (\<Sum>g\<leftarrow>groups. mset (take m g))"
proof (induction m)
  case 0
  show ?case by (induction groups) simp_all
next
  case (Suc m)
  have "(\<Sum>g\<leftarrow>groups. mset (take (Suc m) g))
      = (\<Sum>g\<leftarrow>groups. mset (take m g)) + (\<Sum>g\<leftarrow>groups. if m < length g then {#g ! m#} else {#})"
    by (simp only: mset_take_Suc sum_list_addf)
  with Suc show ?case by (simp add: mset_roundAt)
qed

lemma mset_roundRobin: "mset (roundRobin groups) = mset (concat groups)"
proof -
  have "map (\<lambda>g. mset (take (fold max (map length groups) 0) g)) groups = map mset groups"
    by (rule map_cong) (auto simp: fold_max_ge)
  then have "(\<Sum>g\<leftarrow>groups. mset (take (fold max (map length groups) 0) g)) = mset (concat groups)"
    by (simp only: mset_concat)
  then show ?thesis
    by (simp only: roundRobin_rounds mset_rounds)
qed

lemma concat_map_if_singleton:
  "concat (map (\<lambda>x. if P x then [f x] else []) xs) = map f (filter P xs)"
  by (induction xs) simp_all

lemma length_tagBySource_nth:
  "map length (tagBySource groups) = map length groups"
proof -
  have "map length (tagBySource groups) = map length (map (\<lambda>k. groups ! k) [0..<length groups])"
    by (simp add: tagBySource_def o_def)
  then show ?thesis by (simp only: map_nth)
qed

lemma roundAt_tagBySource:
  "roundAt i (tagBySource groups)
     = map (\<lambda>k. (k, groups ! k ! i)) (filter (\<lambda>k. i < length (groups ! k)) [0..<length groups])"
proof -
  have "roundAt i (tagBySource groups)
      = concat (map (\<lambda>k. if i < length (groups ! k) then [(k, groups ! k ! i)] else [])
                  [0..<length groups])"
    by (simp add: roundAt_def tagBySource_def o_def cong: if_cong)
  then show ?thesis by (simp only: concat_map_if_singleton)
qed

lemma roundAt_nth:
  "roundAt i groups
     = map (\<lambda>k. groups ! k ! i) (filter (\<lambda>k. i < length (groups ! k)) [0..<length groups])"
proof -
  have "roundAt i (map (\<lambda>k. groups ! k) [0..<length groups])
      = concat (map (\<lambda>k. if i < length (groups ! k) then [groups ! k ! i] else [])
                  [0..<length groups])"
    unfolding roundAt_def by (simp add: o_def)
  then show ?thesis by (simp only: concat_map_if_singleton map_nth)
qed

lemma map_snd_roundRobin_tagBySource:
  "map snd (roundRobin (tagBySource groups)) = roundRobin groups"
proof -
  have "map snd (roundAt i (tagBySource groups)) = roundAt i groups" for i
    unfolding roundAt_tagBySource by (simp add: roundAt_nth o_def)
  then show ?thesis
    by (simp add: roundRobin_rounds length_tagBySource_nth map_concat o_def)
qed

lemma map_fst_roundRobin_tagBySource:
  "map fst (roundRobin (tagBySource groups))
     = concat (map (\<lambda>i. filter (\<lambda>k. i < length (groups ! k)) [0..<length groups])
                 [0..<fold max (map length groups) 0])"
  by (simp add: roundRobin_rounds length_tagBySource_nth map_concat o_def
      roundAt_tagBySource)

lemma repeatsOnlyAlone_append:
  assumes "sorted_wrt (<) (xs :: nat list)" and "repeatsOnlyAlone ys"
    and "xs \<noteq> [] \<Longrightarrow> ys \<noteq> [] \<Longrightarrow> last xs = hd ys \<Longrightarrow> \<forall>y\<in>set ys. y = last xs"
  shows "repeatsOnlyAlone (xs @ ys)"
  using assms
proof (induction xs rule: induct_list012)
  case 1
  then show ?case by simp
next
  case (2 a)
  then show ?case by (cases ys) (auto simp: list_all_iff)
next
  case (3 a b xs)
  from "3.prems"(1) have ab: "a \<noteq> b" and sorted_tl: "sorted_wrt (<) (b # xs)" by auto
  have "repeatsOnlyAlone ((b # xs) @ ys)"
  proof (rule "3.IH"(2) [OF sorted_tl "3.prems"(2)])
    assume "ys \<noteq> []" "last (b # xs) = hd ys"
    with "3.prems"(3) show "\<forall>y\<in>set ys. y = last (b # xs)" by simp
  qed
  with ab show ?case by simp
qed

lemma sorted_wrt_less_last:
  "sorted_wrt (<) (xs :: nat list) \<Longrightarrow> y \<in> set xs \<Longrightarrow> y \<le> last xs"
proof (induction xs)
  case Nil
  then show ?case by simp
next
  case (Cons x xs)
  show ?case
  proof (cases "xs = []")
    case True
    with Cons.prems show ?thesis by simp
  next
    case False
    then have "last xs \<in> set xs" by simp
    with Cons False show ?thesis by (auto simp: less_imp_le)
  qed
qed

lemma hd_concat_least:
  assumes "sorted_wrt (\<lambda>r r'. set r' \<subseteq> set r) rs"
    and "\<forall>r\<in>set rs. sorted_wrt (<) (r :: nat list)"
    and "concat rs \<noteq> []"
  shows "\<forall>y\<in>set (concat rs). hd (concat rs) \<le> y"
  using assms
proof (induction rs)
  case Nil
  then show ?case by simp
next
  case (Cons r rs)
  show ?case
  proof (cases "r = []")
    case True
    with Cons show ?thesis by simp
  next
    case False
    then obtain a r' where r: "r = a # r'" by (cases r) auto
    from Cons.prems(1) have "set (concat rs) \<subseteq> set r" by auto
    moreover from Cons.prems(2) r have "\<forall>y\<in>set r. a \<le> y" by auto
    ultimately show ?thesis using r by auto
  qed
qed

lemma repeatsOnlyAlone_rounds:
  assumes "sorted_wrt (\<lambda>r r'. set r' \<subseteq> set r) rs"
    and "\<forall>r\<in>set rs. sorted_wrt (<) (r :: nat list)"
  shows "repeatsOnlyAlone (concat rs)"
  using assms
proof (induction rs)
  case Nil
  then show ?case by simp
next
  case (Cons r rs)
  have tail: "repeatsOnlyAlone (concat rs)" using Cons by simp
  have sorted_r: "sorted_wrt (<) r" using Cons.prems(2) by simp
  have sub: "set (concat rs) \<subseteq> set r" using Cons.prems(1) by auto
  have straddle: "\<forall>y\<in>set (concat rs). y = last r"
    if "r \<noteq> []" "concat rs \<noteq> []" "last r = hd (concat rs)"
  proof
    fix y assume y: "y \<in> set (concat rs)"
    from Cons.prems that(2) have "\<forall>y\<in>set (concat rs). hd (concat rs) \<le> y"
      by (intro hd_concat_least) simp_all
    with y that(3) have "last r \<le> y" by (simp only:)
    moreover have "y \<le> last r"
    proof -
      from y sub have "y \<in> set r" by auto
      with sorted_r show ?thesis by (rule sorted_wrt_less_last)
    qed
    ultimately show "y = last r" by simp
  qed
  have "repeatsOnlyAlone (r @ concat rs)"
    using sorted_r tail straddle by (rule repeatsOnlyAlone_append)
  then show ?case by simp
qed

lemma repeatsOnlyAlone_sources:
  "repeatsOnlyAlone (map fst (roundRobin (tagBySource groups)))"
proof -
  let ?round = "\<lambda>i. filter (\<lambda>k. i < length (groups ! k)) [0..<length groups]"
  let ?m = "fold max (map length groups) 0"
  have "sorted_wrt (\<lambda>i i'. set (?round i') \<subseteq> set (?round i)) [0..<?m]"
    by (rule sorted_wrt_mono_rel [OF _ sorted_wrt_upt]) auto
  then have chain: "sorted_wrt (\<lambda>r r'. set r' \<subseteq> set r) (map ?round [0..<?m])"
    by (simp only: sorted_wrt_map)
  have "sorted_wrt (<) (?round i)" for i
    by (rule sorted_wrt_filter) (rule sorted_wrt_upt)
  then have each: "\<forall>r\<in>set (map ?round [0..<?m]). sorted_wrt (<) r"
    by (simp del: sorted_wrt_upt)
  show ?thesis
    unfolding map_fst_roundRobin_tagBySource
    using chain each by (rule repeatsOnlyAlone_rounds)
qed

lemma repeatsOnlyAlone_nth:
  "repeatsOnlyAlone xs \<Longrightarrow> Suc j < length xs \<Longrightarrow> xs ! j = xs ! Suc j
     \<Longrightarrow> j \<le> l \<Longrightarrow> l < length xs \<Longrightarrow> xs ! l = xs ! j"
proof (induction xs arbitrary: j l rule: repeatsOnlyAlone.induct)
  case (1 a b xs)
  show ?case
  proof (cases j)
    case 0
    with "1.prems" have ab: "a = b" and all: "list_all (\<lambda>x. x = a) xs" by auto
    show ?thesis
    proof (cases l)
      case 0
      with \<open>j = 0\<close> show ?thesis by simp
    next
      case (Suc l')
      show ?thesis
      proof (cases l')
        case 0
        with Suc \<open>j = 0\<close> ab show ?thesis by simp
      next
        case (Suc l'')
        with \<open>l = Suc l'\<close> "1.prems"(5) have "l'' < length xs" by simp
        with all have "xs ! l'' = a" by (simp add: list_all_length)
        with Suc \<open>l = Suc l'\<close> \<open>j = 0\<close> show ?thesis by simp
      qed
    qed
  next
    case (Suc j')
    with "1.prems" obtain l' where l: "l = Suc l'" by (cases l) auto
    from "1.prems"(1) have tl: "repeatsOnlyAlone (b # xs)" by simp
    from "1.prems"(2) Suc have len: "Suc j' < length (b # xs)" by simp
    from "1.prems"(3) Suc have eq: "(b # xs) ! j' = (b # xs) ! Suc j'" by simp
    from "1.prems"(4) Suc l have le: "j' \<le> l'" by simp
    from "1.prems"(5) l have lt: "l' < length (b # xs)" by simp
    have "(b # xs) ! l' = (b # xs) ! j'"
      using tl len eq le lt by (rule "1.IH")
    with Suc l show ?thesis by simp
  qed
qed simp_all

lemma roundRobin_2_3_1:
  "roundRobin [[a1, a2], [b1, b2, b3], [c1]] = [a1, b1, c1, a2, b2, b3]"
  by (simp add: roundRobin_def Let_def upt_conv_Cons)

lemma tagBySource_3:
  "tagBySource [g0, g1, g2] = [map (Pair 0) g0, map (Pair 1) g1, map (Pair 2) g2]"
  by (simp add: tagBySource_def upt_conv_Cons)

lemma length_2_conv: "length xs = 2 \<longleftrightarrow> (\<exists>a b. xs = [a, b])"
  by (auto simp: length_Suc_conv numeral_2_eq_2)

lemma length_3_conv: "length xs = 3 \<longleftrightarrow> (\<exists>a b c. xs = [a, b, c])"
  by (auto simp: length_Suc_conv numeral_3_eq_3)

lemma length_1_conv: "length xs = 1 \<longleftrightarrow> (\<exists>a. xs = [a])"
  by (auto simp: length_Suc_conv)

lemma cardGroups_all:
  "deckIds config = [] \<Longrightarrow> cardsPerDeck config = 0 \<Longrightarrow> cardGroups allDecks config = map cards allDecks"
  by (simp add: cardGroups_def)

lemma roundRobin_sizes_2_3_1:
  assumes "length g0 = 2" "length g1 = 3" "length g2 = 1"
  shows "length (roundRobin [g0, g1, g2]) = 6
       \<and> last (roundRobin [g0, g1, g2]) = last g1
       \<and> fst (last (roundRobin (tagBySource [g0, g1, g2]))) = 1"
proof -
  from assms obtain a1 a2 b1 b2 b3 c1
    where "g0 = [a1, a2]" "g1 = [b1, b2, b3]" "g2 = [c1]"
    unfolding length_2_conv length_3_conv length_1_conv by blast
  then show ?thesis
    by (simp add: tagBySource_3 roundRobin_2_3_1)
qed

lemma fisherYates_loop_mset:
  assumes "\<forall>k. 0 \<le> rnd k \<and> rnd k < 1"
  shows "i < length xs \<Longrightarrow> mset (fisherYates_loop rnd k i xs) = mset xs"
proof (induction i arbitrary: k xs)
  case 0
  then show ?case by simp
next
  case (Suc i)
  let ?j = "nat \<lfloor>rnd k * real (Suc i + 1)\<rfloor>"
  from assms have r: "0 \<le> rnd k" "rnd k < 1" by simp_all
  have "rnd k * real (Suc i + 1) < real (Suc i + 1)"
    using r(2) by (simp add: mult_less_cancel_right2 del: of_nat_Suc of_nat_add)
  then have "\<lfloor>rnd k * real (Suc i + 1)\<rfloor> < int (Suc i + 1)"
    by (simp add: floor_less_iff del: of_nat_Suc of_nat_add)
  then have j: "?j < length xs" using Suc.prems by simp
  have swap: "mset (xs[Suc i := xs ! ?j, ?j := xs ! Suc i]) = mset xs"
    using j Suc.prems by (rule mset_swap)
  have "mset (fisherYates_loop rnd (Suc k) i (xs[Suc i := xs ! ?j, ?j := xs ! Suc i]))
      = mset (xs[Suc i := xs ! ?j, ?j := xs ! Suc i])"
    by (rule Suc.IH) (use Suc.prems in simp)
  with swap show ?case by (simp add: Let_def)
qed

lemma fisherYates_mset:
  assumes "\<forall>k. 0 \<le> rnd k \<and> rnd k < 1"
  shows "mset (fisherYates rnd xs) = mset xs"
proof (cases xs)
  case Nil
  then show ?thesis by (simp add: fisherYates_def)
next
  case (Cons x xs')
  then have "length xs - 1 < length xs" by simp
  with assms show ?thesis unfolding fisherYates_def by (rule fisherYates_loop_mset)
qed

text \<open>
  C6. In round-robin mode, for every pool of decks and every per-deck cap, the output
  holds each selected card exactly once (so without repetition when the selected cards are
  distinct), and whenever two consecutive output cards come from the same source deck,
  every later card comes from that deck too: no other deck has cards left. The output is
  the round-robin sequence of the source-tagged groups with the tags dropped. For three
  decks of 2, 3 and 1 cards it holds 6 cards and the last is the last card of the second,
  3-card deck.
\<close>

theorem createInterleavedDeck_roundRobin:
  assumes "shuffleMode config = RoundRobin"
  shows "(let groups = cardGroups allDecks config;
              out = roundRobin (tagBySource groups);
              deck = createInterleavedDeck rnd allDecks config
          in deck = map snd out
           \<and> mset deck = mset (concat groups)
           \<and> (distinct (concat groups) \<longrightarrow> distinct deck)
           \<and> (\<forall>j l. Suc j < length out \<longrightarrow> fst (out ! j) = fst (out ! Suc j)
                  \<longrightarrow> j \<le> l \<longrightarrow> l < length out \<longrightarrow> fst (out ! l) = fst (out ! j)))
       \<and> (deckIds config = [] \<longrightarrow> cardsPerDeck config = 0
            \<longrightarrow> length (cards d0) = 2 \<longrightarrow> length (cards d1) = 3 \<longrightarrow> length (cards d2) = 1
            \<longrightarrow> length (createInterleavedDeck rnd [d0, d1, d2] config) = 6
              \<and> last (createInterleavedDeck rnd [d0, d1, d2] config) = last (cards d1)
              \<and> fst (last (roundRobin (tagBySource (cardGroups [d0, d1, d2] config)))) = 1)"
proof -
  define groups where "groups = cardGroups allDecks config"
  define out where "out = roundRobin (tagBySource groups)"
  have deck: "createInterleavedDeck rnd decks config = roundRobin (cardGroups decks config)"
    for decks
    using assms by (simp add: createInterleavedDeck_def)
  have 1: "roundRobin groups = map snd out"
    by (simp only: out_def map_snd_roundRobin_tagBySource)
  have 2: "mset (roundRobin groups) = mset (concat groups)"
    by (rule mset_roundRobin)
  have 3: "distinct (roundRobin groups)" if "distinct (concat groups)"
    using that mset_eq_imp_distinct_iff [OF 2] by simp
  have roa: "repeatsOnlyAlone (map fst out)"
    unfolding out_def by (rule repeatsOnlyAlone_sources)
  have 4: "fst (out ! l) = fst (out ! j)"
    if "Suc j < length out" "fst (out ! j) = fst (out ! Suc j)" "j \<le> l" "l < length out"
    for j l
  proof -
    from that have len: "Suc j < length (map fst out)" "l < length (map fst out)"
      and eq: "map fst out ! j = map fst out ! Suc j"
      by simp_all
    have "map fst out ! l = map fst out ! j"
      using roa len(1) eq that(3) len(2) by (rule repeatsOnlyAlone_nth)
    with that show ?thesis by simp
  qed
  have 5: "length (createInterleavedDeck rnd [d0, d1, d2] config) = 6
         \<and> last (createInterleavedDeck rnd [d0, d1, d2] config) = last (cards d1)
         \<and> fst (last (roundRobin (tagBySource (cardGroups [d0, d1, d2] config)))) = 1"
    if "deckIds config = []" "cardsPerDeck config = 0"
       "length (cards d0) = 2" "length (cards d1) = 3" "length (cards d2) = 1"
    using roundRobin_sizes_2_3_1 [OF that(3-5)]
    by (simp add: deck cardGroups_all [OF that(1,2)])
  from 1 2 3 4 5 show ?thesis
    unfolding Let_def deck groups_def [symmetric] out_def [symmetric] by blast
qed

lemma cardGroups_threeDecks:
  "cardGroups threeDecks (allDecksConfig m)
     = [[numberedCard 1, numberedCard 2],
        [numberedCard 3, numberedCard 4, numberedCard 5],
        [numberedCard 6]]"
  by (simp add: cardGroups_def allDecksConfig_def threeDecks_def deckOf_def)

theorem createInterleavedDeck_roundRobin_witness:
  "shuffleMode (allDecksConfig RoundRobin) = RoundRobin
   \<and> createInterleavedDeck (\<lambda>_. 0) threeDecks (allDecksConfig RoundRobin)
       = [numberedCard 1, numberedCard 3, numberedCard 6,
          numberedCard 2, numberedCard 4, numberedCard 5]
   \<and> map fst (roundRobin (tagBySource (cardGroups threeDecks (allDecksConfig RoundRobin))))
       = [0, 1, 2, 0, 1, 1]"
proof -
  have m: "shuffleMode (allDecksConfig RoundRobin) = RoundRobin"
    by (simp add: allDecksConfig_def)
  have out: "roundRobin (tagBySource (cardGroups threeDecks (allDecksConfig RoundRobin)))
      = [(0, numberedCard 1), (1, numberedCard 3), (2, numberedCard 6),
         (0, numberedCard 2), (1, numberedCard 4), (1, numberedCard 5)]"
    by (simp add: cardGroups_threeDecks tagBySource_3 roundRobin_2_3_1)
  from createInterleavedDeck_roundRobin [OF m, of threeDecks "\<lambda>_. 0"]
  have "createInterleavedDeck (\<lambda>_. 0) threeDecks (allDecksConfig RoundRobin)
      = map snd (roundRobin (tagBySource (cardGroups threeDecks (allDecksConfig RoundRobin))))"
    unfolding Let_def by blast
  with m out show ?thesis by simp
qed

text \<open>
  C9 (as amended). A shuffle mode other than round-robin and random, which for the
  configuration type is \<open>weighted\<close>, raises no error: the deck is built exactly as in
  random mode, the Fisher-Yates shuffle of the selected cards, a permutation of them
  whenever the random numbers lie in \<open>[0, 1)\<close>.
\<close>

theorem createInterleavedDeck_weighted_as_random:
  assumes "shuffleMode config \<notin> {RoundRobin, Random}"
  shows "shuffleMode config = Weighted
       \<and> createInterleavedDeck_outcome rnd allDecks config
           = Inr (fisherYates rnd (concat (cardGroups allDecks config)))
       \<and> createInterleavedDeck_outcome rnd allDecks config
           = createInterleavedDeck_outcome rnd allDecks (config\<lparr>shuffleMode := Random\<rparr>)
       \<and> ((\<forall>k. 0 \<le> rnd k \<and> rnd k < 1) \<longrightarrow>
            mset (createInterleavedDeck rnd allDecks config)
              = mset (concat (cardGroups allDecks config)))"
proof -
  from assms have w: "shuffleMode config = Weighted"
    by (cases "shuffleMode config") simp_all
  have g: "cardGroups allDecks (config\<lparr>shuffleMode := Random\<rparr>) = cardGroups allDecks config"
    by (simp add: cardGroups_def)
  have d: "createInterleavedDeck rnd allDecks config
         = fisherYates rnd (concat (cardGroups allDecks config))"
    using w by (simp add: createInterleavedDeck_def)
  have r: "createInterleavedDeck rnd allDecks (config\<lparr>shuffleMode := Random\<rparr>)
         = fisherYates rnd (concat (cardGroups allDecks config))"
    by (simp add: createInterleavedDeck_def g)
  have p: "mset (createInterleavedDeck rnd allDecks config)
         = mset (concat (cardGroups allDecks config))"
    if "\<forall>k. 0 \<le> rnd k \<and> rnd k < 1"
    unfolding d using that by (rule fisherYates_mset)
  from w d r p show ?thesis
    by (simp add: createInterleavedDeck_outcome_def)
qed

theorem createInterleavedDeck_weighted_as_random_witness:
  "shuffleMode (allDecksConfig Weighted) \<notin> {RoundRobin, Random}
   \<and> createInterleavedDeck_outcome (\<lambda>_. 0) threeDecks (allDecksConfig Weighted)
       = createInterleavedDeck_outcome (\<lambda>_. 0) threeDecks (allDecksConfig Random)
   \<and> createInterleavedDeck_outcome (\<lambda>_. 0) threeDecks (allDecksConfig Weighted)
       = Inr (fisherYates (\<lambda>_. 0) (concat (cardGroups threeDecks (allDecksConfig Weighted))))"
proof -
  have m: "shuffleMode (allDecksConfig Weighted) \<notin> {RoundRobin, Random}"
    by (simp add: allDecksConfig_def)
  have c: "(allDecksConfig Weighted)\<lparr>shuffleMode := Random\<rparr> = allDecksConfig Random"
    by (simp add: allDecksConfig_def)
  from createInterleavedDeck_weighted_as_random [OF m, of "\<lambda>_. 0" threeDecks]
  have "createInterleavedDeck_outcome (\<lambda>_. 0) threeDecks (allDecksConfig Weighted)
          = Inr (fisherYates (\<lambda>_. 0) (concat (cardGroups threeDecks (allDecksConfig Weighted))))"
    and "createInterleavedDeck_outcome (\<lambda>_. 0) threeDecks (allDecksConfig Weighted)
          = createInterleavedDeck_outcome (\<lambda>_. 0) threeDecks
              ((allDecksConfig Weighted)\<lparr>shuffleMode := Random\<rparr>)"
    by blast+
  with m show ?thesis by (simp only: c) blast
qed

theorem createInterleavedDeck_weighted_counterexample:
  "createInterleavedDeck_outcome (\<lambda>_. 0) threeDecks (allDecksConfig Weighted)
     \<noteq> Inl InvalidArgument
   \<and> createInterleavedDeck_outcome (\<lambda>_. 0) threeDecks (allDecksConfig Weighted)
     = Inr [numberedCard 2, numberedCard 3, numberedCard 4,
            numberedCard 5, numberedCard 6, numberedCard 1]
   \<and> createInterleavedDeck_outcome (\<lambda>_. 0) threeDecks (allDecksConfig Random)
     = Inr [numberedCard 2, numberedCard 3, numberedCard 4,
            numberedCard 5, numberedCard 6, numberedCard 1]"
proof -
  have fy: "fisherYates (\<lambda>_. 0) [a, b, c, d, e, f] = [b, c, d, e, f, a]" for a b c d e f :: Flashcard
    by (simp add: fisherYates_def eval_nat_numeral Let_def)
  have m: "shuffleMode (allDecksConfig Weighted) \<noteq> RoundRobin"
    "shuffleMode (allDecksConfig Random) \<noteq> RoundRobin"
    by (simp_all add: allDecksConfig_def)
  show ?thesis
    by (simp add: createInterleavedDeck_outcome_def createInterleavedDeck_def
        cardGroups_threeDecks m fy)
qed

lemma createDeliberatePracticeDeck_negative_maxCards:
  "maxCards config < 0 \<Longrightarrow>
     createDeliberatePracticeDeck lc allDecks config
       = take (length (matchingCards lc allDecks config) - nat (- maxCards config))
           (matchingCards lc allDecks config)"
proof -
  assume neg: "maxCards config < 0"
  have "nat (int n + maxCards config) = n - nat (- maxCards config)" for n
    using neg by linarith
  with neg show ?thesis
    by (simp add: createDeliberatePracticeDeck_def slice0_def Let_def)
qed

text \<open>
  C10 (as amended). When \<open>maxCards\<close> is 0 the practice deck is cut at the default limit of
  20: it holds the first 20 matching cards, all of them if there are fewer, and not 0
  cards. Every other value is handed to \<^verbatim>\<open>slice\<close> as the end index: a positive
  \<open>maxCards\<close> keeps that many of the first matching cards, and a negative \<open>maxCards\<close>
  takes no default either but drops that many matching cards from the end.
\<close>

theorem createDeliberatePracticeDeck_limit:
  "(maxCards config = 0 \<longrightarrow>
      createDeliberatePracticeDeck lc allDecks config = take 20 (matchingCards lc allDecks config)
      \<and> length (createDeliberatePracticeDeck lc allDecks config)
          = min 20 (length (matchingCards lc allDecks config)))
   \<and> (0 < maxCards config \<longrightarrow>
      createDeliberatePracticeDeck lc allDecks config
        = take (nat (maxCards config)) (matchingCards lc allDecks config)
      \<and> length (createDeliberatePracticeDeck lc allDecks config)
          = min (nat (maxCards config)) (length (matchingCards lc allDecks config)))
   \<and> (maxCards config < 0 \<longrightarrow>
      createDeliberatePracticeDeck lc allDecks config
        = take (length (matchingCards lc allDecks config) - nat (- maxCards config))
            (matchingCards lc allDecks config)
      \<and> length (createDeliberatePracticeDeck lc allDecks config)
          = length (matchingCards lc allDecks config) - nat (- maxCards config))"
proof -
  have "maxCards config = 0 \<Longrightarrow>
      createDeliberatePracticeDeck lc allDecks config = take 20 (matchingCards lc allDecks config)"
    by (simp add: createDeliberatePracticeDeck_def slice0_def)
  moreover have "0 < maxCards config \<Longrightarrow>
      createDeliberatePracticeDeck lc allDecks config
        = take (nat (maxCards config)) (matchingCards lc allDecks config)"
    by (simp add: createDeliberatePracticeDeck_def slice0_def)
  moreover note createDeliberatePracticeDeck_negative_maxCards [of config lc allDecks]
  ultimately show ?thesis
    by (simp add: min.commute)
qed

lemma matchingCards_practiceConfig:
  "matchingCards lc [deckOf i cs] (practiceConfig n) = cs"
  by (simp add: matchingCards_def practiceConfig_def focusMatch_def difficultyMatch_def
      deckOf_def)

theorem createDeliberatePracticeDeck_limit_witness:
  "maxCards (practiceConfig 0) = 0
   \<and> length (createDeliberatePracticeDeck id [deckOf ''d'' (replicate 25 sampleCard)]
         (practiceConfig 0)) = 20
   \<and> 0 < maxCards (practiceConfig 5)
   \<and> length (createDeliberatePracticeDeck id [deckOf ''d'' (replicate 25 sampleCard)]
         (practiceConfig 5)) = 5
   \<and> maxCards (practiceConfig (- 3)) < 0
   \<and> length (createDeliberatePracticeDeck id [deckOf ''d'' (replicate 25 sampleCard)]
         (practiceConfig (- 3))) = 22"
proof -
  let ?decks = "[deckOf ''d'' (replicate 25 sampleCard)]"
  have m0: "maxCards (practiceConfig 0) = 0" and m5: "0 < maxCards (practiceConfig 5)"
    and m3: "maxCards (practiceConfig (- 3)) < 0"
    by (simp_all add: practiceConfig_def)
  from createDeliberatePracticeDeck_limit [of "practiceConfig 0" id ?decks] m0
  have "length (createDeliberatePracticeDeck id ?decks (practiceConfig 0))
          = min 20 (length (matchingCards id ?decks (practiceConfig 0)))"
    by blast
  then have l0: "length (createDeliberatePracticeDeck id ?decks (practiceConfig 0)) = 20"
    by (simp add: matchingCards_practiceConfig)
  from createDeliberatePracticeDeck_limit [of "practiceConfig 5" id ?decks] m5
  have "length (createDeliberatePracticeDeck id ?decks (practiceConfig 5))
          = min (nat (maxCards (practiceConfig 5)))
              (length (matchingCards id ?decks (practiceConfig 5)))"
    by blast
  moreover have "nat (maxCards (practiceConfig 5)) = 5"
    by (simp add: practiceConfig_def)
  ultimately have l5: "length (createDeliberatePracticeDeck id ?decks (practiceConfig 5)) = 5"
    by (simp add: matchingCards_practiceConfig)
  from createDeliberatePracticeDeck_limit [of "practiceConfig (- 3)" id ?decks] m3
  have "length (createDeliberatePracticeDeck id ?decks (practiceConfig (- 3)))
          = length (matchingCards id ?decks (practiceConfig (- 3)))
              - nat (- maxCards (practiceConfig (- 3)))"
    by blast
  moreover have "nat (- maxCards (practiceConfig (- 3))) = 3"
    by (simp add: practiceConfig_def)
  ultimately have l3: "length (createDeliberatePracticeDeck id ?decks (practiceConfig (- 3))) = 22"
    by (simp add: matchingCards_practiceConfig)
  from m0 l0 m5 l5 m3 l3 show ?thesis by blast
qed

theorem createDeliberatePracticeDeck_limit_counterexample:
  "\<not> 0 < maxCards (practiceConfig (- 3))
   \<and> length (matchingCards id [deckOf ''d'' (replicate 25 sampleCard)] (practiceConfig (- 3))) = 25
   \<and> length (createDeliberatePracticeDeck id [deckOf ''d'' (replicate 25 sampleCard)]
         (practiceConfig (- 3))) = 22"
  by (simp add: createDeliberatePracticeDeck_def slice0_def matchingCards_practiceConfig)
     (simp add: practiceConfig_def)

section \<open>Properties of the weakness analysis\<close>

lemma chapterLabel_without_category:
  "category deck = None \<or> category deck = Some [] \<Longrightarrow> chapterLabel deck = ''undefined''"
  by (auto simp: chapterLabel_def js_or_def deck_title_def propertyKey_def)

lemma chapterLabel_with_category:
  "category deck = Some c \<Longrightarrow> c \<noteq> [] \<Longrightarrow> chapterLabel deck = c"
  by (simp add: chapterLabel_def js_or_def propertyKey_def)

lemma undefined_not_inherited: "''undefined'' \<notin> set objectPrototypeKeys"
  by (simp add: objectPrototypeKeys_def)

lemma addCard_examples:
  "addCard \<lparr> total = 0, correct = 0, stat_cards = [] \<rparr> (sampleCard\<lparr> repetitions := 3 \<rparr>)
     = \<lparr> total = 3, correct = 2, stat_cards = [''c1''] \<rparr>"
  "addCard \<lparr> total = 3, correct = 2, stat_cards = [''c1''] \<rparr>
       (hardCard\<lparr> easeFactor := 3 / 2, repetitions := 5 \<rparr>)
     = \<lparr> total = 8, correct = 3, stat_cards = [''c1'', ''c2''] \<rparr>"
  by (simp_all add: addCard_def sampleCard_def hardCard_def Let_def mathRound_def
      fl_table fl_ints)

text \<open>
  C7 (the code at a failing input). A deck named Biology with no category is filed under
  the label "undefined", not under its name; a second category-less deck named Chemistry
  is merged into the same entry.
\<close>

theorem chapterStats_ignores_deck_name:
  "chapterLabel biologyDeck = ''undefined''
   \<and> chapterLabel biologyDeck \<noteq> name biologyDeck
   \<and> chapterStats [biologyDeck]
       = Inr [''undefined'' \<mapsto> \<lparr> total = 3, correct = 2, stat_cards = [''c1''] \<rparr>]
   \<and> chapterStats [biologyDeck, chemistryDeck]
       = Inr [''undefined'' \<mapsto> \<lparr> total = 8, correct = 3, stat_cards = [''c1'', ''c2''] \<rparr>]"
proof -
  have l: "chapterLabel biologyDeck = ''undefined''" "chapterLabel chemistryDeck = ''undefined''"
    by (simp_all add: chapterLabel_without_category biologyDeck_def chemistryDeck_def)
  have c: "cards biologyDeck = [sampleCard\<lparr> repetitions := 3 \<rparr>]"
    "cards chemistryDeck = [hardCard\<lparr> easeFactor := 1.5, repetitions := 5 \<rparr>]"
    by (simp_all add: biologyDeck_def chemistryDeck_def)
  have n: "name biologyDeck = ''Biology''" by (simp add: biologyDeck_def)
  show ?thesis
    by (simp add: chapterStats_def addDeck_def Let_def l c n undefined_not_inherited
        addCard_examples)
qed

section \<open>Properties of the metacognition score\<close>

text \<open>
  C8 (the code at a failing input). A rating of 7 on a scale of 5 scores 140, and a rating
  of -3 scores -60: the score leaves the range 0..100.
\<close>

theorem calculateMetacognitionScore_out_of_range:
  "calculateMetacognitionScore [''q1'' \<mapsto> ANum 7] [ratingQuestion ''q1''] = 140
   \<and> calculateMetacognitionScore [''q1'' \<mapsto> ANum (-3)] [ratingQuestion ''q1''] = -60"
  by (simp add: calculateMetacognitionScore_def scoreStep_def ratingQuestion_def mathRound_def
      fl_table fl_ints)

lemma scoreStep_unanswered:
  "answers (question_id q) = None \<or> answers (question_id q) = Some (AStr [])
     \<Longrightarrow> scoreStep answers acc q = acc"
  by (auto simp: scoreStep_def split: prod.splits)

lemma foldl_scoreStep_unanswered:
  "list_all (\<lambda>q. answers (question_id q) = None \<or> answers (question_id q) = Some (AStr []))
     questions
   \<Longrightarrow> foldl (scoreStep answers) acc questions = acc"
  by (induction questions arbitrary: acc) (simp_all add: scoreStep_unanswered)

lemma calculateMetacognitionScore_none_answered:
  "list_all (\<lambda>q. answers (question_id q) = None \<or> answers (question_id q) = Some (AStr []))
     questions
   \<Longrightarrow> calculateMetacognitionScore answers questions = 0"
  by (simp add: calculateMetacognitionScore_def foldl_scoreStep_unanswered)

lemma indexOf_bounds: "- 1 \<le> indexOf xs x \<and> indexOf xs x < int (length xs)"
  by (induction xs) (auto simp: Let_def)

lemma scoreStep_in_scale:
  assumes "ratingInScale answers q" and "0 \<le> t" and "t \<le> m"
  shows "0 \<le> fst (scoreStep answers (t, m) q)
       \<and> fst (scoreStep answers (t, m) q) \<le> snd (scoreStep answers (t, m) q)"
proof -
  have nonneg: "0 \<le> fl (t + a)" if "0 \<le> a" for a
    using that assms(2) by (simp add: fl_nonneg)
  have le: "fl (t + a) \<le> fl (m + s)" if "a \<le> s" for a s
    using that assms(3) by (simp add: fl_mono)
  have nonneg0: "0 \<le> fl t"
    using assms(2) by (simp add: fl_nonneg)
  have le0: "fl t \<le> fl (m + s)" if "0 \<le> s" for s
    using that assms(3) by (simp add: fl_mono)
  note step = nonneg le nonneg0 le0 assms(2,3)
  show ?thesis
  proof (cases "answers (question_id q)")
    case None
    with assms show ?thesis by (simp add: scoreStep_def)
  next
    case (Some a)
    show ?thesis
    proof (cases "qtype q")
      case Rating
      with assms(1) Some show ?thesis
        by (cases a) (auto simp: scoreStep_def ratingInScale_def Let_def step
            split: option.splits)
    next
      case YesNo
      with Some show ?thesis
        by (auto simp: scoreStep_def step)
    next
      case Selection
      have idx: "real_of_int (indexOf os s) \<le> real (length os)" for os and s :: string
      proof -
        from indexOf_bounds [of os s] have "indexOf os s \<le> int (length os)" by simp
        then have "real_of_int (indexOf os s) \<le> real_of_int (int (length os))"
          by (simp only: of_int_le_iff)
        then show ?thesis by simp
      qed
      from Some Selection show ?thesis
        by (cases a) (auto simp: scoreStep_def Let_def step idx split: option.splits)
    next
      case TextQ
      with Some show ?thesis
        by (cases a) (auto simp: scoreStep_def step)
    qed
  qed
qed

lemma foldl_scoreStep_in_scale:
  "list_all (ratingInScale answers) questions \<Longrightarrow> 0 \<le> t \<Longrightarrow> t \<le> m
     \<Longrightarrow> 0 \<le> fst (foldl (scoreStep answers) (t, m) questions)
       \<and> fst (foldl (scoreStep answers) (t, m) questions)
           \<le> snd (foldl (scoreStep answers) (t, m) questions)"
proof (induction questions arbitrary: t m)
  case Nil
  then show ?case by simp
next
  case (Cons q questions)
  obtain t' m' where step: "scoreStep answers (t, m) q = (t', m')"
    by (cases "scoreStep answers (t, m) q")
  from Cons.prems have "ratingInScale answers q" by simp
  from scoreStep_in_scale [OF this Cons.prems(2,3)] step
  have "0 \<le> t'" "t' \<le> m'" by simp_all
  moreover from Cons.prems have "list_all (ratingInScale answers) questions" by simp
  ultimately show ?case using Cons.IH [of t' m'] step by simp
qed

text \<open>
  With every rating answered within its scale the score lies in 0..100, also in double
  arithmetic.
\<close>

lemma calculateMetacognitionScore_in_range:
  assumes "list_all (ratingInScale answers) questions"
  shows "0 \<le> calculateMetacognitionScore answers questions
       \<and> calculateMetacognitionScore answers questions \<le> 100"
proof -
  obtain t m where fold: "foldl (scoreStep answers) (0, 0) questions = (t, m)"
    by (cases "foldl (scoreStep answers) (0, 0) questions")
  from foldl_scoreStep_in_scale [OF assms, of 0 0] fold
  have tm: "0 \<le> t" "t \<le> m" by simp_all
  show ?thesis
  proof (cases "0 < m \<and> questions \<noteq> []")
    case False
    then show ?thesis by (auto simp: calculateMetacognitionScore_def fold)
  next
    case True
    define r where "r = fl (t / m)"
    from True tm have "0 \<le> t / m" "t / m \<le> 1" by simp_all
    then have "0 \<le> fl (t / m)" "fl (t / m) \<le> fl 1" by (simp_all add: fl_nonneg fl_mono)
    then have r: "0 \<le> r" "r \<le> 1" by (simp_all add: r_def fl_1)
    define p where "p = fl (r * 100)"
    from r have "0 \<le> r * 100" "r * 100 \<le> 100" by simp_all
    then have "0 \<le> fl (r * 100)" "fl (r * 100) \<le> fl 100" by (simp_all add: fl_nonneg fl_mono)
    then have p: "0 \<le> p" "p \<le> 100" by (simp_all add: p_def fl_numeral)
    then have "0 \<le> mathRound p" "mathRound p \<le> 100"
      by (simp_all add: mathRound_def)
    moreover have "calculateMetacognitionScore answers questions = mathRound p"
      using True by (simp add: calculateMetacognitionScore_def fold p_def r_def)
    ultimately show ?thesis by simp
  qed
qed

lemma calculateMetacognitionScore_all_max:
  "calculateMetacognitionScore [''q1'' \<mapsto> ANum 5, ''q2'' \<mapsto> ANum 5]
     [ratingQuestion ''q1'', ratingQuestion ''q2'', ratingQuestion ''q3''] = 100"
  by (simp add: calculateMetacognitionScore_def scoreStep_def ratingQuestion_def mathRound_def
      fl_ints)

text \<open>
  The rounding of the source, which rounding the exact quotient misses: 23 points of 40
  score 57, where the exact 57.5 would round to 58.
\<close>

lemma calculateMetacognitionScore_rounding:
  "calculateMetacognitionScore [''q1'' \<mapsto> ANum 23]
     [\<lparr> question_id = ''q1'', qtype = Rating, scale = Some 40, options = None \<rparr>] = 57"
  by (simp add: calculateMetacognitionScore_def scoreStep_def mathRound_def fl_table fl_ints)

end
